theory Spec2Isabelle
  imports Complex_Main "HOL-Library.Word"
begin

section \<open>Vocalized: the audio visualizer component\<close>

text \<open>
  The repository holds one React component, \<^verbatim>\<open>src/components/AudioVisualizer.tsx\<close>, in two
  versions. The first version (style \<^verbatim>\<open>'line' | 'circle' | 'bar'\<close>, functions
  \<^verbatim>\<open>startVisualization\<close>, \<^verbatim>\<open>stopVisualization\<close>, \<^verbatim>\<open>visualize\<close>, \<^verbatim>\<open>drawLine\<close>, \<^verbatim>\<open>drawCircle\<close>,
  \<^verbatim>\<open>drawBars\<close>) carries the suffix \<open>1\<close> below wherever a name is shared; the second version
  (style \<^verbatim>\<open>'straight' | 'circle' | 'bar'\<close>, functions \<^verbatim>\<open>startRecording\<close>, \<^verbatim>\<open>stopRecording\<close>,
  \<^verbatim>\<open>draw\<close>, \<^verbatim>\<open>drawFrame\<close>, \<^verbatim>\<open>drawStraightLine\<close>, \<^verbatim>\<open>drawCircle\<close>, \<^verbatim>\<open>drawBars\<close>) carries the
  suffix \<open>2\<close>.

  JavaScript numbers are modelled as real numbers: the arithmetic of the transforms is
  exact here, without the rounding of IEEE doubles. The samples are the bytes of a
  \<^verbatim>\<open>Uint8Array\<close>, an \<open>8 word\<close> each.
\<close>

subsection \<open>The drawing surface\<close>

text \<open>
  A \<^verbatim>\<open>CanvasRenderingContext2D\<close> is modelled by the list of calls made on it, in order.
  A canvas ignores a path or rectangle call with a non-finite argument, so a call whose
  argument would be \<^verbatim>\<open>NaN\<close> (a sample read beyond the array) leaves no entry in the list.
\<close>

type_synonym u8 = "8 word"

datatype paint =
    Css string
  | Rgb nat nat nat
  | LinearGradient real real real real "(real \<times> string) list"

datatype cmd =
    ClearRect real real real real
  | FillRect real real real real
  | BeginPath
  | ClosePath
  | MoveTo real real
  | LineTo real real
  | Arc real real real real real
  | Stroke
  | Fill
  | LineWidth real
  | StrokeStyle paint
  | FillStyle paint

text \<open>A thrown value: an \<^verbatim>\<open>Error\<close> (a \<^verbatim>\<open>DOMException\<close> is one) with its message, or anything else.\<close>

datatype thrown = Error string | NonError

text \<open>\<^verbatim>\<open>dataArray[i]\<close>: the byte as a number, \<^verbatim>\<open>undefined\<close> (\<open>None\<close>) beyond the array.\<close>

definition sample :: "u8 list \<Rightarrow> nat \<Rightarrow> nat option" where
  "sample dataArray i = (if i < length dataArray then Some (unat (dataArray ! i)) else None)"

subsection \<open>First version: the three transforms\<close>

text \<open>
  \<^verbatim>\<open>const v = dataArray[i] / 255.0; const y = (height / 2) * (1 - v * 2) + height / 2;\<close>
\<close>

definition drawLine_y :: "real \<Rightarrow> real \<Rightarrow> real" where
  "drawLine_y height s = (let v = s / 255 in (height / 2) * (1 - v * 2) + height / 2)"

function drawLine_loop :: "u8 list \<Rightarrow> nat \<Rightarrow> real \<Rightarrow> real \<Rightarrow> nat \<Rightarrow> real \<Rightarrow> cmd list" where
  "drawLine_loop dataArray bufferLength height sliceWidth i x =
     (if i < bufferLength then
        (case sample dataArray i of
           None \<Rightarrow> []
         | Some s \<Rightarrow> [if i = 0 then MoveTo x (drawLine_y height (real s))
                       else LineTo x (drawLine_y height (real s))])
        @ drawLine_loop dataArray bufferLength height sliceWidth (i + 1) (x + sliceWidth)
      else [])"
  by pat_completeness auto
termination
  by (relation "measure (\<lambda>(d, n, h, sw, i, x). n - i)") auto

declare drawLine_loop.simps [simp del]

definition drawLine :: "u8 list \<Rightarrow> nat \<Rightarrow> real \<Rightarrow> real \<Rightarrow> cmd list" where
  "drawLine dataArray bufferLength width height =
     (let sliceWidth = width / real bufferLength in
      [LineWidth 2, StrokeStyle (Css ''#38bdf8''), BeginPath]
      @ drawLine_loop dataArray bufferLength height sliceWidth 0 0
      @ [Stroke])"

text \<open>
  \<^verbatim>\<open>const amplitude = dataArray[i] / 255; const pointRadius = radius + amplitude * 50;\<close>
\<close>

definition pointRadius1 :: "real \<Rightarrow> real \<Rightarrow> real" where
  "pointRadius1 radius s = (let amplitude = s / 255 in radius + amplitude * 50)"

text \<open>The point plotted for index \<open>i\<close>; the source computes the previous point the same way.\<close>

definition point1 :: "nat \<Rightarrow> real \<Rightarrow> real \<Rightarrow> real \<Rightarrow> nat \<Rightarrow> real \<Rightarrow> real \<times> real" where
  "point1 bufferLength centerX centerY radius i s =
     (let angle = (real i / real bufferLength) * 2 * pi;
          pointRadius = pointRadius1 radius s
      in (centerX + cos angle * pointRadius, centerY + sin angle * pointRadius))"

definition drawCircle1_body :: "u8 list \<Rightarrow> nat \<Rightarrow> real \<Rightarrow> real \<Rightarrow> real \<Rightarrow> nat \<Rightarrow> cmd list" where
  "drawCircle1_body dataArray bufferLength centerX centerY radius i =
     [BeginPath]
     @ (case sample dataArray i of
          None \<Rightarrow> []
        | Some s \<Rightarrow> (case point1 bufferLength centerX centerY radius i (real s) of
                       (x, y) \<Rightarrow> [Arc x y 2 0 (2 * pi)]))
     @ [FillStyle (Css ''#a78bfa''), Fill]
     @ (if i > 0 then
          [BeginPath]
          @ (case sample dataArray (i - 8) of
               None \<Rightarrow> []
             | Some p \<Rightarrow> (case point1 bufferLength centerX centerY radius (i - 8) (real p) of
                            (prevX, prevY) \<Rightarrow> [MoveTo prevX prevY]))
          @ (case sample dataArray i of
               None \<Rightarrow> []
             | Some s \<Rightarrow> (case point1 bufferLength centerX centerY radius i (real s) of
                            (x, y) \<Rightarrow> [LineTo x y]))
          @ [StrokeStyle (Css ''#a78bfa''), LineWidth 1, Stroke]
        else [])"

function drawCircle1_loop :: "u8 list \<Rightarrow> nat \<Rightarrow> real \<Rightarrow> real \<Rightarrow> real \<Rightarrow> nat \<Rightarrow> cmd list" where
  "drawCircle1_loop dataArray bufferLength centerX centerY radius i =
     (if i < bufferLength then
        drawCircle1_body dataArray bufferLength centerX centerY radius i
        @ drawCircle1_loop dataArray bufferLength centerX centerY radius (i + 8)
      else [])"
  by pat_completeness auto
termination
  by (relation "measure (\<lambda>(d, n, cx, cy, r, i). n - i)") auto

declare drawCircle1_loop.simps [simp del]

text \<open>
  \<^verbatim>\<open>ctx.arc\<close> throws an \<^verbatim>\<open>IndexSizeError\<close> on a negative radius; the calls made before it
  stay on the surface.
\<close>

definition drawCircle1 :: "u8 list \<Rightarrow> nat \<Rightarrow> real \<Rightarrow> real \<Rightarrow> cmd list \<times> thrown option" where
  "drawCircle1 dataArray bufferLength width height =
     (let centerX = width / 2;
          centerY = height / 2;
          radius = min width height / 4
      in if radius < 0 then ([BeginPath], Some (Error ''IndexSizeError''))
         else ([BeginPath, Arc centerX centerY radius 0 (2 * pi),
                StrokeStyle (Css ''#a78bfa''), LineWidth 2, Stroke]
               @ drawCircle1_loop dataArray bufferLength centerX centerY radius 0, None))"

text \<open>
  \<^verbatim>\<open>ctx.fillRect(x, height - barHeight, barWidth, barHeight); x += barWidth + 1;
  if (x > width) break;\<close>
\<close>

function drawBars1_loop :: "u8 list \<Rightarrow> nat \<Rightarrow> real \<Rightarrow> real \<Rightarrow> real \<Rightarrow> nat \<Rightarrow> real \<Rightarrow> cmd list" where
  "drawBars1_loop dataArray bufferLength width height barWidth i x =
     (if i < bufferLength then
        (case sample dataArray i of
           None \<Rightarrow> []
         | Some s \<Rightarrow>
             (let barHeight = (real s / 255) * height in
              [FillStyle (Rgb (s + 100) 134 244),
               FillRect x (height - barHeight) barWidth barHeight]))
        @ (if x + (barWidth + 1) > width then []
           else drawBars1_loop dataArray bufferLength width height barWidth (i + 1) (x + (barWidth + 1)))
      else [])"
  by pat_completeness auto
termination
  by (relation "measure (\<lambda>(d, n, w, h, bw, i, x). n - i)") auto

declare drawBars1_loop.simps [simp del]

definition drawBars1 :: "u8 list \<Rightarrow> nat \<Rightarrow> real \<Rightarrow> real \<Rightarrow> cmd list" where
  "drawBars1 dataArray bufferLength width height =
     (let barWidth = (width / real bufferLength) * 2.5 in
      drawBars1_loop dataArray bufferLength width height barWidth 0 0)"

subsection \<open>Second version: the three transforms\<close>

text \<open>A \<^verbatim>\<open>DOMRectReadOnly\<close>, of which the code reads the width and the height.\<close>

record rect =
  width :: real
  height :: real

text \<open>
  \<^verbatim>\<open>const percent = dataArray[i] / 255; const y = centerY - percent * (rect.height / 2);\<close>
\<close>

definition drawStraightLine_y :: "rect \<Rightarrow> real \<Rightarrow> real" where
  "drawStraightLine_y rect s =
     (let centerY = height rect / 2; percent = s / 255 in centerY - percent * (height rect / 2))"

function drawStraightLine_loop :: "u8 list \<Rightarrow> rect \<Rightarrow> real \<Rightarrow> nat \<Rightarrow> real \<Rightarrow> cmd list" where
  "drawStraightLine_loop dataArray rect sliceWidth i x =
     (if i < length dataArray then
        (let y = drawStraightLine_y rect (real (unat (dataArray ! i))) in
         (if i = 0 then MoveTo x y else LineTo x y)
         # drawStraightLine_loop dataArray rect sliceWidth (i + 1) (x + sliceWidth))
      else [])"
  by pat_completeness auto
termination
  by (relation "measure (\<lambda>(d, r, sw, i, x). length d - i)") auto

declare drawStraightLine_loop.simps [simp del]

definition drawStraightLine :: "u8 list \<Rightarrow> rect \<Rightarrow> cmd list" where
  "drawStraightLine dataArray rect =
     (let sliceWidth = width rect / real (length dataArray);
          centerY = height rect / 2
      in [LineWidth 2, StrokeStyle (Css ''rgb(0, 255, 0)''), BeginPath]
         @ drawStraightLine_loop dataArray rect sliceWidth 0 0
         @ [Stroke, BeginPath, StrokeStyle (Css ''rgba(255, 255, 255, 0.2)''),
            MoveTo 0 centerY, LineTo (width rect) centerY, Stroke])"

text \<open>
  \<^verbatim>\<open>const baseRadius = Math.min(centerX, centerY) * 0.8;\<close> and
  \<^verbatim>\<open>const radius = baseRadius * (1 + percent * 0.5);\<close>
\<close>

definition baseRadius2 :: "rect \<Rightarrow> real" where
  "baseRadius2 rect = (let centerX = width rect / 2; centerY = height rect / 2 in min centerX centerY * 0.8)"

definition radius2 :: "real \<Rightarrow> real \<Rightarrow> real" where
  "radius2 baseRadius s = (let percent = s / 255 in baseRadius * (1 + percent * 0.5))"

definition point2 :: "nat \<Rightarrow> rect \<Rightarrow> nat \<Rightarrow> real \<Rightarrow> real \<times> real" where
  "point2 n rect i s =
     (let centerX = width rect / 2;
          centerY = height rect / 2;
          angle = (real i * 2 * pi) / real n;
          radius = radius2 (baseRadius2 rect) s
      in (centerX + radius * cos angle, centerY + radius * sin angle))"

function drawCircle2_loop :: "u8 list \<Rightarrow> rect \<Rightarrow> nat \<Rightarrow> cmd list" where
  "drawCircle2_loop dataArray rect i =
     (if i < length dataArray then
        (case point2 (length dataArray) rect i (real (unat (dataArray ! i))) of
           (x, y) \<Rightarrow> (if i = 0 then MoveTo x y else LineTo x y))
        # drawCircle2_loop dataArray rect (i + 1)
      else [])"
  by pat_completeness auto
termination
  by (relation "measure (\<lambda>(d, r, i). length d - i)") auto

declare drawCircle2_loop.simps [simp del]

definition drawCircle2 :: "u8 list \<Rightarrow> rect \<Rightarrow> cmd list \<times> thrown option" where
  "drawCircle2 dataArray rect =
     (let centerX = width rect / 2;
          centerY = height rect / 2;
          baseRadius = baseRadius2 rect
      in if baseRadius < 0
         then ([BeginPath, StrokeStyle (Css ''rgba(255, 255, 255, 0.2)''), LineWidth 1],
               Some (Error ''IndexSizeError''))
         else ([BeginPath, StrokeStyle (Css ''rgba(255, 255, 255, 0.2)''), LineWidth 1,
                Arc centerX centerY baseRadius 0 (2 * pi), Stroke,
                BeginPath, StrokeStyle (Css ''rgb(0, 255, 0)''), LineWidth 2]
               @ drawCircle2_loop dataArray rect 0
               @ [ClosePath, Stroke], None))"

text \<open>
  \<^verbatim>\<open>const barWidth = (rect.width / barCount) * 0.8; const barSpacing = (rect.width / barCount) * 0.2;\<close>
  Each bar is filled with a gradient from the bottom edge to its top.
\<close>

definition barWidth2 :: "u8 list \<Rightarrow> rect \<Rightarrow> real" where
  "barWidth2 dataArray rect = (width rect / real (length dataArray)) * 0.8"

definition barSpacing2 :: "u8 list \<Rightarrow> rect \<Rightarrow> real" where
  "barSpacing2 dataArray rect = (width rect / real (length dataArray)) * 0.2"

function drawBars2_loop :: "u8 list \<Rightarrow> rect \<Rightarrow> nat \<Rightarrow> real \<Rightarrow> cmd list" where
  "drawBars2_loop dataArray rect i x =
     (if i < length dataArray then
        (let percent = real (unat (dataArray ! i)) / 255;
             barHeight = height rect * percent
         in [FillStyle (LinearGradient 0 (height rect) 0 (height rect - barHeight)
                          [(0, ''rgb(0, 255, 0)''), (1, ''rgb(0, 128, 0)'')]),
             FillRect x (height rect - barHeight) (barWidth2 dataArray rect) barHeight])
        @ drawBars2_loop dataArray rect (i + 1) (x + (barWidth2 dataArray rect + barSpacing2 dataArray rect))
      else [])"
  by pat_completeness auto
termination
  by (relation "measure (\<lambda>(d, r, i, x). length d - i)") auto

declare drawBars2_loop.simps [simp del]

definition drawBars2 :: "u8 list \<Rightarrow> rect \<Rightarrow> cmd list" where
  "drawBars2 dataArray rect = drawBars2_loop dataArray rect 0 0"

subsection \<open>Plotted points\<close>



section \<open>The render loop and the session\<close>

text \<open>
  The component lives in a browser. Its surroundings are modelled by plain data in the
  state: the capture streams with live tracks and how many were opened and closed, the
  source nodes connected to an analyser, the frame requests not yet run or cancelled
  (each with the closure it will call), the console, and which representation every read
  of the analyser asked for. What the surroundings decide is an argument of the function
  that asks: the outcome of \<^verbatim>\<open>getUserMedia\<close>, and the bytes the analyser holds when a frame
  reads them.

  An asynchronous function runs in pieces. The call runs up to the \<^verbatim>\<open>await\<close> and leaves a pending
  request in the state; the request settling is an event of its own, which carries the
  outcome and runs the code after the \<^verbatim>\<open>await\<close>. Any other event may come in between: a second
  click, a frame, the unmount. A value of React state that a function reads is the value of
  the render that created the function; a function reads it from an argument, and a setter
  writes the state the next render will see.
\<close>

subsection \<open>Surroundings\<close>

datatype representation = TimeDomainData | FrequencyData

record audio =
  timeDomainData :: "u8 list"
  frequencyData :: "u8 list"

record analyser =
  fftSize :: nat
  minDecibels :: real
  maxDecibels :: real
  smoothingTimeConstant :: real

definition frequencyBinCount :: "analyser \<Rightarrow> nat" where
  "frequencyBinCount a = fftSize a div 2"

text \<open>\<^verbatim>\<open>getByte...Data(dataArray)\<close> copies as many bytes as fit and leaves the rest of the array.\<close>

definition getByteData :: "u8 list \<Rightarrow> u8 list \<Rightarrow> u8 list" where
  "getByteData dataArray src = take (length dataArray) src @ drop (length src) dataArray"

text \<open>
  The canvas element: its \<open>width\<close> and \<open>height\<close> attributes, whether \<^verbatim>\<open>getContext('2d')\<close> gives
  a context, its bounding rectangle on the page, and the calls made on its context since
  its bitmap was last reset.
\<close>

record canvas = rect +
  context2d :: bool
  boundingClientRect :: rect
  painted :: "cmd list"

text \<open>
  Assigning a number to \<^verbatim>\<open>canvas.width\<close> or \<^verbatim>\<open>canvas.height\<close>. The attribute is an
  \<^verbatim>\<open>unsigned long\<close>: the number is truncated and taken modulo \<open>2^32\<close>, and a result above
  \<open>2^31 - 1\<close> gives the default of the attribute instead (300 for the width, 150 for the
  height).
\<close>

definition ToUint32 :: "real \<Rightarrow> real" where
  "ToUint32 x = real_of_int ((if x < 0 then \<lceil>x\<rceil> else \<lfloor>x\<rfloor>) mod 2 ^ 32)"

definition setDimension :: "real \<Rightarrow> real \<Rightarrow> real" where
  "setDimension dflt x = (if ToUint32 x \<le> 2147483647 then ToUint32 x else dflt)"

text \<open>
  What a frame callback has captured: the byte array, its length, the geometry read when
  the loop was started, and (second version) the values of the render.
\<close>

record 'r closure =
  capDataArray :: "u8 list"
  capBufferLength :: nat
  capGeometry :: rect
  capRender :: 'r

text \<open>
  How far the effect that runs on mount has come: it asks for a stream (to be allowed to
  read the device labels), then for the list of devices.
\<close>

datatype loading = AwaitingStream | AwaitingDevices | Loaded

text \<open>
  The part of the state both versions share: the refs to the canvas, the stream and the
  source node, the two pieces of React state with the same name, and the surroundings,
  with whether the component is still mounted and how far its mount effect has come.
\<close>

record ('r, 'v) component =
  canvasRef :: "canvas option"
  streamRef :: "nat option"
  sourceRef :: "nat option"
  isRecording :: bool
  visualizationType :: 'v
  liveStreams :: "nat list"
  opens :: nat
  closes :: nat
  connectedSources :: "nat list"
  frames :: "(nat \<times> 'r closure) list"
  nextId :: nat
  console :: "string list"
  reads :: "representation list"
  uncaught :: "thrown list"
  mounted :: bool
  loading :: loading

definition requestAnimationFrame ::
  "'r closure \<Rightarrow> ('r, 'v, 'z) component_scheme \<Rightarrow> nat \<times> ('r, 'v, 'z) component_scheme" where
  "requestAnimationFrame callback s =
     (nextId s, s\<lparr>frames := frames s @ [(nextId s, callback)], nextId := nextId s + 1\<rparr>)"

definition cancelAnimationFrame ::
  "nat \<Rightarrow> ('r, 'v, 'z) component_scheme \<Rightarrow> ('r, 'v, 'z) component_scheme" where
  "cancelAnimationFrame handle s = s\<lparr>frames := filter (\<lambda>f. fst f \<noteq> handle) (frames s)\<rparr>"

text \<open>A granted \<^verbatim>\<open>getUserMedia\<close>: a new stream with live tracks, counted as opened.\<close>

definition getUserMedia ::
  "('r, 'v, 'z) component_scheme \<Rightarrow> nat \<times> ('r, 'v, 'z) component_scheme" where
  "getUserMedia s =
     (nextId s, s\<lparr>liveStreams := liveStreams s @ [nextId s], opens := opens s + 1,
                   nextId := nextId s + 1\<rparr>)"

text \<open>\<^verbatim>\<open>stream.getTracks().forEach(track => track.stop())\<close>, counted as closed.\<close>

definition stopTracks ::
  "nat \<Rightarrow> ('r, 'v, 'z) component_scheme \<Rightarrow> ('r, 'v, 'z) component_scheme" where
  "stopTracks stream s =
     s\<lparr>liveStreams := removeAll stream (liveStreams s), closes := closes s + 1\<rparr>"

text \<open>\<^verbatim>\<open>createMediaStreamSource(stream)\<close> followed by \<^verbatim>\<open>source.connect(analyser)\<close>.\<close>

definition connectSource ::
  "('r, 'v, 'z) component_scheme \<Rightarrow> nat \<times> ('r, 'v, 'z) component_scheme" where
  "connectSource s =
     (nextId s, s\<lparr>connectedSources := connectedSources s @ [nextId s], nextId := nextId s + 1\<rparr>)"

definition disconnect ::
  "nat \<Rightarrow> ('r, 'v, 'z) component_scheme \<Rightarrow> ('r, 'v, 'z) component_scheme" where
  "disconnect source s = s\<lparr>connectedSources := removeAll source (connectedSources s)\<rparr>"

text \<open>Calls on the context of the canvas; the arguments may read the canvas.\<close>

definition paint ::
  "(canvas \<Rightarrow> cmd list) \<Rightarrow> ('r, 'v, 'z) component_scheme \<Rightarrow> ('r, 'v, 'z) component_scheme" where
  "paint calls s =
     s\<lparr>canvasRef := map_option (\<lambda>c. c\<lparr>painted := painted c @ calls c\<rparr>) (canvasRef s)\<rparr>"

definition logConsole ::
  "string \<Rightarrow> ('r, 'v, 'z) component_scheme \<Rightarrow> ('r, 'v, 'z) component_scheme" where
  "logConsole message s = s\<lparr>console := console s @ [message]\<rparr>"

text \<open>
  The session as the surroundings see it, next to the refs and the recording flag: the
  stream and source refs, the flag, the streams with live tracks, the counts of streams
  opened and closed, and the connected source nodes.
\<close>

definition session ::
  "('r, 'v, 'z) component_scheme
   \<Rightarrow> nat option \<times> nat option \<times> bool \<times> nat list \<times> nat \<times> nat \<times> nat list" where
  "session s =
     (streamRef s, sourceRef s, isRecording s, liveStreams s, opens s, closes s, connectedSources s)"

subsection \<open>First version: the controller\<close>

datatype VisualizationType = Line | Circle | Bar

text \<open>
  The refs and the React state of the first version, and the number of calls of
  \<^verbatim>\<open>startVisualization\<close> that wait for their \<^verbatim>\<open>getUserMedia\<close>.
\<close>

record state1 = "(unit, VisualizationType) component" +
  selectedMicrophone :: string
  audioContextRef :: "nat option"
  analyserRef :: "analyser option"
  animationRef :: nat
  visualizationTypeRef :: VisualizationType
  microphones :: "string list"
  pendingStarts :: nat

definition stopVisualization :: "state1 \<Rightarrow> state1" where
  "stopVisualization s =
     (let s1 = (if animationRef s \<noteq> 0 then cancelAnimationFrame (animationRef s) s else s);
          s2 = (case sourceRef s1 of
                  None \<Rightarrow> s1
                | Some source \<Rightarrow> (disconnect source s1)\<lparr>sourceRef := None\<rparr>);
          s3 = (case streamRef s2 of
                  None \<Rightarrow> s2
                | Some stream \<Rightarrow> (stopTracks stream s2)\<lparr>streamRef := None\<rparr>)
      in s3\<lparr>isRecording := False\<rparr>)"

text \<open>The \<^verbatim>\<open>switch\<close> of the frame: the calls of the chosen transform, and what it threw.\<close>

definition dispatch1 ::
  "VisualizationType \<Rightarrow> u8 list \<Rightarrow> nat \<Rightarrow> real \<Rightarrow> real \<Rightarrow> cmd list \<times> thrown option" where
  "dispatch1 v dataArray bufferLength w h =
     (case v of
        Line \<Rightarrow> (drawLine dataArray bufferLength w h, None)
      | Circle \<Rightarrow> drawCircle1 dataArray bufferLength w h
      | Bar \<Rightarrow> (drawBars1 dataArray bufferLength w h, None))"

text \<open>
  One frame. The request for the next frame comes first; the callback it registers is
  this same closure, whose array holds the bytes just read by the time it runs. The
  bytes are the frequency data for the bar style and the time-domain data otherwise,
  according to the style the ref holds now. A transform that throws leaves the function
  with the exception.
\<close>

definition byteData1 :: "VisualizationType \<Rightarrow> unit closure \<Rightarrow> audio \<Rightarrow> u8 list" where
  "byteData1 v e a =
     (if v = Bar then getByteData (capDataArray e) (frequencyData a)
      else getByteData (capDataArray e) (timeDomainData a))"

definition asked1 :: "VisualizationType \<Rightarrow> representation" where
  "asked1 v = (if v = Bar then FrequencyData else TimeDomainData)"

definition background1 :: "real \<Rightarrow> real \<Rightarrow> cmd list" where
  "background1 w h = [FillStyle (Css ''rgba(15, 23, 42, 0.2)''), FillRect 0 0 w h]"

definition draw :: "unit closure \<Rightarrow> audio \<Rightarrow> state1 \<Rightarrow> state1 \<times> thrown option" where
  "draw e a s =
     (let currentVisualizationType = visualizationTypeRef s;
          dataArray = byteData1 currentVisualizationType e a;
          (handle, s1) = requestAnimationFrame (e\<lparr>capDataArray := dataArray\<rparr>) s;
          s2 = s1\<lparr>animationRef := handle,
                  reads := reads s1 @ [asked1 currentVisualizationType]\<rparr>;
          w = width (capGeometry e);
          h = height (capGeometry e);
          s3 = paint (\<lambda>c. background1 w h) s2
      in case dispatch1 currentVisualizationType dataArray (capBufferLength e) w h of
           (calls, thrown) \<Rightarrow> (paint (\<lambda>c. calls) s3, thrown))"

definition visualize :: "audio \<Rightarrow> state1 \<Rightarrow> state1 \<times> thrown option" where
  "visualize a s =
     (case canvasRef s of
        None \<Rightarrow> (s, None)
      | Some canvas \<Rightarrow>
          (case analyserRef s of
             None \<Rightarrow> (s, None)
           | Some analyser \<Rightarrow>
               if \<not> context2d canvas then (s, None)
               else
                 (let bufferLength = frequencyBinCount analyser;
                      dataArray = replicate bufferLength 0;
                      w = width canvas;
                      h = height canvas;
                      s1 = paint (\<lambda>c. [ClearRect 0 0 w h]) s
                  in draw \<lparr>capDataArray = dataArray, capBufferLength = bufferLength,
                            capGeometry = \<lparr>width = w, height = h\<rparr>, capRender = ()\<rparr> a s1)))"

text \<open>The blocks of \<^verbatim>\<open>startVisualization\<close>. First: create the audio context if there is none.\<close>

definition ensureAudioContext :: "state1 \<Rightarrow> state1" where
  "ensureAudioContext s =
     (case audioContextRef s of
        None \<Rightarrow> s\<lparr>nextId := nextId s + 1, audioContextRef := Some (nextId s)\<rparr>
      | Some c \<Rightarrow> s)"

text \<open>
  After a granted \<^verbatim>\<open>getUserMedia\<close>: keep the stream, create the analyser (\<^verbatim>\<open>fftSize = 2048\<close>, the
  rest as the browser sets it) and the source node connected to it, keep both, and set
  \<^verbatim>\<open>isRecording\<close>.
\<close>

definition openSession1 :: "state1 \<Rightarrow> state1" where
  "openSession1 s1 =
     (let (stream, s2) = getUserMedia s1;
          s3 = s2\<lparr>streamRef := Some stream\<rparr>;
          analyser = \<lparr>fftSize = 2048, minDecibels = - 100, maxDecibels = - 30,
                      smoothingTimeConstant = 0.8\<rparr>;
          (source, s4) = connectSource s3
      in s4\<lparr>sourceRef := Some source, isRecording := True, analyserRef := Some analyser\<rparr>)"

text \<open>The \<^verbatim>\<open>catch\<close>: whatever was thrown is logged to the console, and nothing else.\<close>

definition catchStart1 :: "state1 \<times> thrown option \<Rightarrow> state1" where
  "catchStart1 p =
     (case p of
        (s, None) \<Rightarrow> s
      | (s, Some error) \<Rightarrow> logConsole ''Error starting visualization:'' s)"

text \<open>
  \<^verbatim>\<open>startVisualization\<close> in its two pieces. Up to the \<^verbatim>\<open>await\<close>, with the selected microphone of
  the render: nothing happens without a microphone; otherwise the audio context is
  ensured and \<^verbatim>\<open>getUserMedia\<close> is asked, which leaves one more request pending. After the
  \<^verbatim>\<open>await\<close>, with the outcome of \<^verbatim>\<open>getUserMedia\<close> (\<open>Inl\<close> a rejection) and the bytes the first
  frame reads: the first frame runs inside the \<^verbatim>\<open>try\<close>, so what it throws is caught here too.
\<close>

definition startVisualization_await :: "string \<Rightarrow> state1 \<Rightarrow> state1" where
  "startVisualization_await selected s =
     (if selected = [] then s
      else (ensureAudioContext s)\<lparr>pendingStarts := pendingStarts s + 1\<rparr>)"

definition startVisualization_resume :: "thrown + unit \<Rightarrow> audio \<Rightarrow> state1 \<Rightarrow> state1" where
  "startVisualization_resume granted a s1 =
     (case granted of
        Inl error \<Rightarrow> catchStart1 (s1, Some error)
      | Inr u \<Rightarrow> catchStart1 (visualize a (openSession1 s1)))"

text \<open>
  \<^verbatim>\<open>startVisualization\<close> from its call to its return, when its \<^verbatim>\<open>getUserMedia\<close> settles before
  anything else happens.
\<close>

definition startVisualization :: "string \<Rightarrow> thrown + unit \<Rightarrow> audio \<Rightarrow> state1 \<Rightarrow> state1" where
  "startVisualization selected granted a s =
     (if selected = [] then s
      else startVisualization_resume granted a (ensureAudioContext s))"

text \<open>The button: it stops when the render shows a recording, and starts otherwise.\<close>

definition handleToggleRecording :: "bool \<Rightarrow> string \<Rightarrow> state1 \<Rightarrow> state1" where
  "handleToggleRecording recording selected s =
     (if recording then stopVisualization s else startVisualization_await selected s)"

text \<open>
  The effect on mount, \<^verbatim>\<open>getMicrophones\<close>, after each of its two \<^verbatim>\<open>await\<close>s. A granted stream is
  held by nothing and its tracks are never stopped. The devices are given by the ids of
  the audio inputs; the first becomes the selected microphone.
\<close>

definition getMicrophones_stream :: "thrown + unit \<Rightarrow> state1 \<Rightarrow> state1" where
  "getMicrophones_stream granted s =
     (case granted of
        Inl error \<Rightarrow> (logConsole ''Error accessing media devices:'' s)\<lparr>loading := Loaded\<rparr>
      | Inr u \<Rightarrow> (snd (getUserMedia s))\<lparr>loading := AwaitingDevices\<rparr>)"

definition getMicrophones_devices :: "thrown + string list \<Rightarrow> state1 \<Rightarrow> state1" where
  "getMicrophones_devices enumerated s =
     (case enumerated of
        Inl error \<Rightarrow> (logConsole ''Error accessing media devices:'' s)\<lparr>loading := Loaded\<rparr>
      | Inr audioInputs \<Rightarrow>
          s\<lparr>loading := Loaded,
            selectedMicrophone := (if audioInputs \<noteq> [] then hd audioInputs
                                   else selectedMicrophone s),
            microphones := audioInputs\<rparr>)"

text \<open>
  What can happen to the component: the two requests of the mount effect settle; a choice
  in the microphone list (disabled while recording; it offers the microphones found, or
  one empty entry when none was found); a choice of style (the effect that follows the
  render copies it into the ref); a click on the button (disabled while no microphone is
  selected); the \<^verbatim>\<open>getUserMedia\<close> of a pending start settles; a frame request comes due;
  something assigns a new size to the canvas (which resets its bitmap); the component is
  unmounted, which detaches the canvas ref and runs the cleanup. Requests and frames
  outlive the unmount, the page's controls do not; what a late frame paints on the
  detached canvas is not recorded. An exception that leaves a frame callback is recorded
  as uncaught.
\<close>

datatype event1 =
    StreamForDevices "thrown + unit"
  | DevicesEnumerated "thrown + string list"
  | SelectMicrophone string
  | SetVisualizationType VisualizationType
  | ClickButton
  | StreamSettled "thrown + unit" audio
  | AnimationFrame nat audio
  | ResizeCanvas real real
  | Unmount

definition offered1 :: "state1 \<Rightarrow> string \<Rightarrow> bool" where
  "offered1 s m = (if microphones s = [] then m = [] else m \<in> set (microphones s))"

definition step1 :: "event1 \<Rightarrow> state1 \<Rightarrow> state1" where
  "step1 ev s =
     (case ev of
        StreamForDevices granted \<Rightarrow>
          if loading s = AwaitingStream then getMicrophones_stream granted s else s
      | DevicesEnumerated enumerated \<Rightarrow>
          if loading s = AwaitingDevices then getMicrophones_devices enumerated s else s
      | SelectMicrophone m \<Rightarrow>
          if mounted s \<and> \<not> isRecording s \<and> offered1 s m then s\<lparr>selectedMicrophone := m\<rparr> else s
      | SetVisualizationType v \<Rightarrow>
          if mounted s then s\<lparr>visualizationType := v, visualizationTypeRef := v\<rparr> else s
      | ClickButton \<Rightarrow>
          if mounted s \<and> selectedMicrophone s \<noteq> []
          then handleToggleRecording (isRecording s) (selectedMicrophone s) s
          else s
      | StreamSettled granted a \<Rightarrow>
          if 0 < pendingStarts s
          then startVisualization_resume granted a (s\<lparr>pendingStarts := pendingStarts s - 1\<rparr>)
          else s
      | AnimationFrame handle a \<Rightarrow>
          (case map_of (frames s) handle of
             None \<Rightarrow> s
           | Some e \<Rightarrow>
               (case draw e a (cancelAnimationFrame handle s) of
                  (s1, None) \<Rightarrow> s1
                | (s1, Some error) \<Rightarrow> s1\<lparr>uncaught := uncaught s1 @ [error]\<rparr>))
      | ResizeCanvas w h \<Rightarrow>
          s\<lparr>canvasRef := map_option (\<lambda>c. c\<lparr>width := setDimension 300 w,
                                              height := setDimension 150 h, painted := []\<rparr>)
                           (canvasRef s)\<rparr>
      | Unmount \<Rightarrow>
          if mounted s then stopVisualization (s\<lparr>canvasRef := None, mounted := False\<rparr>) else s)"

definition run1 :: "event1 list \<Rightarrow> state1 \<Rightarrow> state1" where
  "run1 evs s = fold step1 evs s"

text \<open>
  The component after its first render, with the canvas of the page: the mount effect has
  asked for its stream.
\<close>

definition init1 :: "canvas \<Rightarrow> state1" where
  "init1 c =
     \<lparr>canvasRef = Some c, streamRef = None, sourceRef = None, isRecording = False,
      visualizationType = Line, liveStreams = [], opens = 0, closes = 0,
      connectedSources = [], frames = [], nextId = 1, console = [], reads = [],
      uncaught = [], mounted = True, loading = AwaitingStream,
      selectedMicrophone = [], audioContextRef = None, analyserRef = None,
      animationRef = 0, visualizationTypeRef = Line, microphones = [], pendingStarts = 0\<rparr>"

subsection \<open>Second version: the controller\<close>

datatype VisualizationType2 = Straight | Circle2 | Bar2

text \<open>The status line \<^verbatim>\<open>debugInfo\<close>, one constructor for each text the code sets.\<close>

datatype debug =
    NoInfo
  | DevicesLoaded nat
  | ErrorLoadingDevices string
  | NoDeviceSelected
  | RecordingStarted
  | ErrorStartingRecording string
  | RecordingStopped
  | CannotDraw
  | Stats real nat nat real real

text \<open>The React state a function of one render reads.\<close>

record render =
  selectedDeviceOf :: string
  isRecordingOf :: bool
  visualizationTypeOf :: VisualizationType2
  audioContextOf :: "nat option"

text \<open>
  The refs and the React state of the second version, the audio contexts \<^verbatim>\<open>close()\<close> was
  called on (one entry for each call), and the calls of \<^verbatim>\<open>startRecording\<close> that wait for
  their \<^verbatim>\<open>getUserMedia\<close>, each with the render that made it and the audio context it
  created.
\<close>

record state2 = "(render, VisualizationType2) component" +
  selectedDevice :: string
  audioContext :: "nat option"
  analyserState :: "analyser option"
  debugInfo :: debug
  animationFrameId :: "nat option"
  closedContexts :: "nat list"
  audioDevices :: "string list"
  pendingRecordings :: "(render \<times> nat) list"

definition render :: "state2 \<Rightarrow> render" where
  "render s =
     \<lparr>selectedDeviceOf = selectedDevice s, isRecordingOf = isRecording s,
      visualizationTypeOf = visualizationType s, audioContextOf = audioContext s\<rparr>"

text \<open>\<^verbatim>\<open>error instanceof Error ? error.message : 'Unknown error'\<close>\<close>

definition errorMessage :: "thrown \<Rightarrow> string" where
  "errorMessage error = (case error of Error message \<Rightarrow> message | NonError \<Rightarrow> ''Unknown error'')"

text \<open>A frame handle is a positive number; the code tests the ref for truth.\<close>

definition truthy :: "nat option \<Rightarrow> bool" where
  "truthy h = (case h of None \<Rightarrow> False | Some n \<Rightarrow> n \<noteq> 0)"

definition background2 :: "canvas \<Rightarrow> cmd list" where
  "background2 c = [FillStyle (Css ''rgb(20, 20, 20)''), FillRect 0 0 (width c) (height c)]"

text \<open>The end of \<^verbatim>\<open>stopRecording\<close>: the background over the whole canvas, if it has a context.\<close>

definition clearedFrame :: "canvas \<Rightarrow> cmd list" where
  "clearedFrame c = (if context2d c then background2 c else [])"

definition stopRecording :: "render \<Rightarrow> state2 \<Rightarrow> state2" where
  "stopRecording r s =
     (let s1 = (if truthy (animationFrameId s)
                then (cancelAnimationFrame (the (animationFrameId s)) s)\<lparr>animationFrameId := None\<rparr>
                else s);
          s2 = (case streamRef s1 of
                  None \<Rightarrow> s1
                | Some stream \<Rightarrow> (stopTracks stream s1)\<lparr>streamRef := None\<rparr>);
          s3 = (case sourceRef s2 of
                  None \<Rightarrow> s2
                | Some source \<Rightarrow> (disconnect source s2)\<lparr>sourceRef := None\<rparr>);
          s4 = (case audioContextOf r of
                  None \<Rightarrow> s3
                | Some c \<Rightarrow> s3\<lparr>audioContext := None,
                                closedContexts := closedContexts s3 @ [c]\<rparr>);
          s5 = s4\<lparr>isRecording := False, analyserState := None, debugInfo := RecordingStopped\<rparr>
      in paint clearedFrame s5)"

text \<open>The \<^verbatim>\<open>switch\<close> of the frame, inside its \<^verbatim>\<open>try\<close>.\<close>

definition dispatch2 :: "VisualizationType2 \<Rightarrow> u8 list \<Rightarrow> rect \<Rightarrow> cmd list \<times> thrown option" where
  "dispatch2 v dataArray rect =
     (case v of
        Straight \<Rightarrow> (drawStraightLine dataArray rect, None)
      | Circle2 \<Rightarrow> drawCircle2 dataArray rect
      | Bar2 \<Rightarrow> (drawBars2 dataArray rect, None))"

text \<open>The status line a finished frame sets: average, maximum, buffer length, rectangle.\<close>

definition frameStats :: "nat \<Rightarrow> u8 list \<Rightarrow> rect \<Rightarrow> debug" where
  "frameStats bufferLength dataArray rect =
     (let total = sum_list (map unat (take bufferLength dataArray));
          maxValue = fold max (map unat (take bufferLength dataArray)) 0;
          avg = real total / real bufferLength
      in Stats avg maxValue bufferLength (width rect) (height rect))"

text \<open>
  One frame. It tests the \<^verbatim>\<open>isRecording\<close> of the render that started the loop, reads the
  frequency data, fills the background over the canvas as it is now, and dispatches on
  the \<^verbatim>\<open>visualizationType\<close> of that same render, with the rectangle measured when the loop
  was started. A transform that throws is caught here.
\<close>

definition drawFrame :: "render closure \<Rightarrow> audio \<Rightarrow> state2 \<Rightarrow> state2" where
  "drawFrame e a s =
     (let r = capRender e in
      if \<not> isRecordingOf r then
        (let s1 = logConsole ''Recording stopped, cleaning up animation frame'' s in
         if truthy (animationFrameId s1)
         then (cancelAnimationFrame (the (animationFrameId s1)) s1)\<lparr>animationFrameId := None\<rparr>
         else s1)
      else
        (let dataArray = getByteData (capDataArray e) (frequencyData a);
             s1 = s\<lparr>reads := reads s @ [FrequencyData]\<rparr>;
             s2 = paint background2 s1;
             rect = capGeometry e;
             (calls, thrown) = dispatch2 (visualizationTypeOf r) dataArray rect;
             s3 = paint (\<lambda>c. calls) s2
         in case thrown of
              Some error \<Rightarrow> stopRecording r (logConsole ''Error in visualization:'' s3)
            | None \<Rightarrow>
                (let (handle, s4) = requestAnimationFrame (e\<lparr>capDataArray := dataArray\<rparr>) s3;
                     s5 = s4\<lparr>animationFrameId := Some handle\<rparr>
                 in s5\<lparr>debugInfo := frameStats (capBufferLength e) dataArray rect\<rparr>)))"

text \<open>
  \<^verbatim>\<open>draw(analyserNode)\<close>: measures the canvas on the page once, sets the canvas size from it
  (which resets the bitmap), and runs the first frame.
\<close>

definition draw2 :: "render \<Rightarrow> analyser \<Rightarrow> audio \<Rightarrow> state2 \<Rightarrow> state2" where
  "draw2 r analyserNode a s =
     (case canvasRef s of
        None \<Rightarrow> (logConsole ''Missing required elements:'' s)\<lparr>debugInfo := CannotDraw\<rparr>
      | Some canvas \<Rightarrow>
          if \<not> context2d canvas
          then (logConsole ''Missing required elements:'' s)\<lparr>debugInfo := CannotDraw\<rparr>
          else
            (let rect = boundingClientRect canvas;
                 s1 = s\<lparr>canvasRef := Some (canvas\<lparr>width := setDimension 300 (width rect),
                                                    height := setDimension 150 (height rect),
                                                    painted := []\<rparr>)\<rparr>;
                 bufferLength = frequencyBinCount analyserNode;
                 dataArray = replicate bufferLength 0
             in drawFrame \<lparr>capDataArray = dataArray, capBufferLength = bufferLength,
                            capGeometry = rect, capRender = r\<rparr> a s1))"

text \<open>
  The blocks of \<^verbatim>\<open>startRecording\<close>. After a granted \<^verbatim>\<open>getUserMedia\<close>: create the source node
  and the analyser with its settings, connect them, keep the stream and the source, and
  set the state.
\<close>

definition openSession2 :: "nat \<Rightarrow> state2 \<Rightarrow> analyser \<times> state2" where
  "openSession2 context s2 =
     (let (stream, s3) = getUserMedia s2;
          (source, s4) = connectSource s3;
          analyserNode = \<lparr>fftSize = 2048, minDecibels = - 90, maxDecibels = - 10,
                          smoothingTimeConstant = 0.85\<rparr>
      in (analyserNode,
          s4\<lparr>streamRef := Some stream, sourceRef := Some source, isRecording := True,
             audioContext := Some context, analyserState := Some analyserNode,
             debugInfo := RecordingStarted\<rparr>))"

text \<open>
  The \<^verbatim>\<open>catch\<close>: the error is logged, its message is set as the status line, and
  \<^verbatim>\<open>stopRecording\<close> runs, which sets the status line again.
\<close>

definition catchStart2 :: "render \<Rightarrow> thrown \<Rightarrow> state2 \<Rightarrow> state2" where
  "catchStart2 r error s =
     stopRecording r
       ((logConsole ''Error starting recording:'' s)
          \<lparr>debugInfo := ErrorStartingRecording (errorMessage error)\<rparr>)"

text \<open>
  \<^verbatim>\<open>startRecording\<close> in its two pieces, with the render that created it. Up to the \<^verbatim>\<open>await\<close>:
  without a device only the status line is set; otherwise any recording is stopped, a new
  audio context is created and \<^verbatim>\<open>getUserMedia\<close> is asked, which leaves a request pending.
  After the \<^verbatim>\<open>await\<close>, with the audio context created before it, the outcome of
  \<^verbatim>\<open>getUserMedia\<close> and the bytes the first frame reads.
\<close>

definition startRecording_await :: "render \<Rightarrow> state2 \<Rightarrow> state2" where
  "startRecording_await r s =
     (if selectedDeviceOf r = [] then s\<lparr>debugInfo := NoDeviceSelected\<rparr>
      else
        (let s1 = stopRecording r s;
             context = nextId s1
         in s1\<lparr>nextId := nextId s1 + 1,
               pendingRecordings := pendingRecordings s1 @ [(r, context)]\<rparr>))"

definition startRecording_resume ::
  "render \<Rightarrow> nat \<Rightarrow> thrown + unit \<Rightarrow> audio \<Rightarrow> state2 \<Rightarrow> state2" where
  "startRecording_resume r context granted a s2 =
     (case granted of
        Inl error \<Rightarrow> catchStart2 r error s2
      | Inr u \<Rightarrow>
          (case openSession2 context s2 of
             (analyserNode, s5) \<Rightarrow> draw2 r analyserNode a s5))"

text \<open>
  \<^verbatim>\<open>startRecording\<close> from its call to its return, when its \<^verbatim>\<open>getUserMedia\<close> settles before
  anything else happens.
\<close>

definition startRecording :: "render \<Rightarrow> thrown + unit \<Rightarrow> audio \<Rightarrow> state2 \<Rightarrow> state2" where
  "startRecording r granted a s =
     (if selectedDeviceOf r = [] then s\<lparr>debugInfo := NoDeviceSelected\<rparr>
      else
        (let s1 = stopRecording r s;
             context = nextId s1;
             s2 = s1\<lparr>nextId := nextId s1 + 1\<rparr>
         in startRecording_resume r context granted a s2))"

text \<open>
  The effect on mount, \<^verbatim>\<open>loadAudioDevices\<close>, after each of its two \<^verbatim>\<open>await\<close>s. The tracks of a
  granted stream are stopped at once. The devices are given by the ids of the audio
  inputs; the first becomes the selected device (the effect reads \<^verbatim>\<open>selectedDevice\<close> of the
  first render, which is empty). The state is set only while the component is mounted.
\<close>

definition catchLoad2 :: "thrown \<Rightarrow> state2 \<Rightarrow> state2" where
  "catchLoad2 error s =
     (let s1 = logConsole ''Error loading audio devices:'' s
      in if mounted s1
         then s1\<lparr>loading := Loaded, debugInfo := ErrorLoadingDevices (errorMessage error)\<rparr>
         else s1\<lparr>loading := Loaded\<rparr>)"

definition loadAudioDevices_stream :: "thrown + unit \<Rightarrow> state2 \<Rightarrow> state2" where
  "loadAudioDevices_stream granted s =
     (case granted of
        Inl error \<Rightarrow> catchLoad2 error s
      | Inr u \<Rightarrow>
          (case getUserMedia s of
             (initialStream, s1) \<Rightarrow> (stopTracks initialStream s1)\<lparr>loading := AwaitingDevices\<rparr>))"

definition loadAudioDevices_devices :: "thrown + string list \<Rightarrow> state2 \<Rightarrow> state2" where
  "loadAudioDevices_devices enumerated s =
     (case enumerated of
        Inl error \<Rightarrow> catchLoad2 error s
      | Inr audioInputs \<Rightarrow>
          if mounted s
          then s\<lparr>loading := Loaded,
                 selectedDevice := (if audioInputs \<noteq> [] then hd audioInputs else selectedDevice s),
                 debugInfo := DevicesLoaded (length audioInputs),
                 audioDevices := audioInputs\<rparr>
          else s\<lparr>loading := Loaded\<rparr>)"

text \<open>The render the cleanup on unmount belongs to: the first.\<close>

definition firstRender :: render where
  "firstRender =
     \<lparr>selectedDeviceOf = [], isRecordingOf = False, visualizationTypeOf = Straight,
      audioContextOf = None\<rparr>"

text \<open>
  What can happen to the component: the two requests of the mount effect settle; a choice
  of device among those found (the list is disabled while recording); a choice of style; a
  click on the button, which calls \<^verbatim>\<open>stopRecording\<close> when the render shows a recording and
  \<^verbatim>\<open>startRecording\<close> otherwise; the \<^verbatim>\<open>getUserMedia\<close> of a pending start settles (the pending
  starts are numbered from 0); a frame request comes due; the canvas gets a new size on
  the page; the component is unmounted, which detaches the canvas ref and runs the
  cleanup, the \<^verbatim>\<open>stopRecording\<close> of the first render. Requests and frames outlive the
  unmount, the page's controls do not; what is painted on the detached canvas is not
  recorded.
\<close>

datatype event2 =
    StreamForDevices2 "thrown + unit"
  | DevicesEnumerated2 "thrown + string list"
  | SelectDevice string
  | SetVisualizationType2 VisualizationType2
  | ClickButton2
  | StreamSettled2 nat "thrown + unit" audio
  | AnimationFrame2 nat audio
  | ResizeCanvas2 rect
  | Unmount2

definition step2 :: "event2 \<Rightarrow> state2 \<Rightarrow> state2" where
  "step2 ev s =
     (case ev of
        StreamForDevices2 granted \<Rightarrow>
          if loading s = AwaitingStream then loadAudioDevices_stream granted s else s
      | DevicesEnumerated2 enumerated \<Rightarrow>
          if loading s = AwaitingDevices then loadAudioDevices_devices enumerated s else s
      | SelectDevice d \<Rightarrow>
          if mounted s \<and> \<not> isRecording s \<and> d \<in> set (audioDevices s)
          then s\<lparr>selectedDevice := d\<rparr> else s
      | SetVisualizationType2 v \<Rightarrow> if mounted s then s\<lparr>visualizationType := v\<rparr> else s
      | ClickButton2 \<Rightarrow>
          if mounted s
          then (if isRecording s then stopRecording (render s) s
                else startRecording_await (render s) s)
          else s
      | StreamSettled2 k granted a \<Rightarrow>
          if k < length (pendingRecordings s)
          then (case pendingRecordings s ! k of
                  (r, context) \<Rightarrow>
                    startRecording_resume r context granted a
                      (s\<lparr>pendingRecordings := take k (pendingRecordings s)
                                                @ drop (Suc k) (pendingRecordings s)\<rparr>))
          else s
      | AnimationFrame2 handle a \<Rightarrow>
          (case map_of (frames s) handle of
             None \<Rightarrow> s
           | Some e \<Rightarrow> drawFrame e a (cancelAnimationFrame handle s))
      | ResizeCanvas2 rect \<Rightarrow>
          if 0 \<le> width rect \<and> 0 \<le> height rect
          then s\<lparr>canvasRef := map_option (\<lambda>c. c\<lparr>boundingClientRect := rect\<rparr>) (canvasRef s)\<rparr>
          else s
      | Unmount2 \<Rightarrow>
          if mounted s then stopRecording firstRender (s\<lparr>canvasRef := None, mounted := False\<rparr>)
          else s)"

definition run2 :: "event2 list \<Rightarrow> state2 \<Rightarrow> state2" where
  "run2 evs s = fold step2 evs s"

text \<open>The component after its first render: the mount effect has asked for its stream.\<close>

definition init2 :: "canvas \<Rightarrow> state2" where
  "init2 c =
     \<lparr>canvasRef = Some c, streamRef = None, sourceRef = None, isRecording = False,
      visualizationType = Straight, liveStreams = [], opens = 0, closes = 0,
      connectedSources = [], frames = [], nextId = 1, console = [], reads = [],
      uncaught = [], mounted = True, loading = AwaitingStream,
      selectedDevice = [], audioContext = None, analyserState = None,
      debugInfo = NoInfo, animationFrameId = None, closedContexts = [],
      audioDevices = [], pendingRecordings = []\<rparr>"

text \<open>
  The canvas of the page: 800 by 400, with a 2d context, shown at its own size. And the
  bytes of a silent input: a flat waveform and an empty spectrum.
\<close>

definition silence :: audio where
  "silence = \<lparr>timeDomainData = replicate 1024 128, frequencyData = replicate 1024 0\<rparr>"

definition pageCanvas :: canvas where
  "pageCanvas =
     \<lparr>width = 800, height = 400, context2d = True,
      boundingClientRect = \<lparr>width = 800, height = 400\<rparr>, painted = []\<rparr>"

subsection \<open>States of the page\<close>

text \<open>
  The first version once its mount effect was granted its stream and found the one
  microphone \<^verbatim>\<open>mic-1\<close>: the stream, 1, has live tracks, and the microphone is selected.
\<close>

definition idle1 :: state1 where
  "idle1 =
     \<lparr>canvasRef = Some pageCanvas, streamRef = None, sourceRef = None, isRecording = False,
      visualizationType = Line, liveStreams = [1], opens = 1, closes = 0,
      connectedSources = [], frames = [], nextId = 2, console = [], reads = [],
      uncaught = [], mounted = True, loading = Loaded,
      selectedMicrophone = ''mic-1'', audioContextRef = None, analyserRef = None,
      animationRef = 0, visualizationTypeRef = Line, microphones = [''mic-1''],
      pendingStarts = 0\<rparr>"

text \<open>
  Then a click on the button, whose \<^verbatim>\<open>getUserMedia\<close> was granted with a silent input: the audio
  context is 2, the stream 3, the source node 4; the first frame has drawn the flat line
  and asked for the next frame, 5.
\<close>

definition loop1 :: "unit closure" where
  "loop1 =
     \<lparr>capDataArray = replicate 1024 128, capBufferLength = 1024,
      capGeometry = \<lparr>width = 800, height = 400\<rparr>, capRender = ()\<rparr>"

definition flatLineCanvas :: canvas where
  "flatLineCanvas =
     pageCanvas\<lparr>painted := [ClearRect 0 0 800 400] @ background1 800 400
                            @ drawLine (replicate 1024 128) 1024 800 400\<rparr>"

definition recording1 :: state1 where
  "recording1 =
     \<lparr>canvasRef = Some flatLineCanvas,
      streamRef = Some 3, sourceRef = Some 4, isRecording = True,
      visualizationType = Line, liveStreams = [1, 3], opens = 2, closes = 0,
      connectedSources = [4], frames = [(5, loop1)], nextId = 6, console = [],
      reads = [TimeDomainData], uncaught = [], mounted = True, loading = Loaded,
      selectedMicrophone = ''mic-1'', audioContextRef = Some 2,
      analyserRef = Some \<lparr>fftSize = 2048, minDecibels = - 100, maxDecibels = - 30,
                             smoothingTimeConstant = 0.8\<rparr>,
      animationRef = 5, visualizationTypeRef = Line, microphones = [''mic-1''],
      pendingStarts = 0\<rparr>"

text \<open>
  The second version once its mount effect was granted its stream, 1, stopped it, and
  found the one device \<^verbatim>\<open>mic-1\<close>.
\<close>

definition idle2 :: state2 where
  "idle2 =
     \<lparr>canvasRef = Some pageCanvas, streamRef = None, sourceRef = None, isRecording = False,
      visualizationType = Straight, liveStreams = [], opens = 1, closes = 1,
      connectedSources = [], frames = [], nextId = 2, console = [], reads = [],
      uncaught = [], mounted = True, loading = Loaded,
      selectedDevice = ''mic-1'', audioContext = None, analyserState = None,
      debugInfo = DevicesLoaded 1, animationFrameId = None, closedContexts = [],
      audioDevices = [''mic-1''], pendingRecordings = []\<rparr>"

text \<open>The render of that state.\<close>

definition pageRender :: render where
  "pageRender =
     \<lparr>selectedDeviceOf = ''mic-1'', isRecordingOf = False, visualizationTypeOf = Straight,
      audioContextOf = None\<rparr>"

text \<open>
  Then a click on the button, whose \<^verbatim>\<open>getUserMedia\<close> was granted: the audio context is 2, the
  stream 3, the source node 4. The render that started the loop had \<^verbatim>\<open>isRecording\<close> false, so
  the first frame logged that recording had stopped and returned: nothing was read or
  drawn and no frame is pending.
\<close>

definition recording2 :: state2 where
  "recording2 =
     \<lparr>canvasRef = Some pageCanvas,
      streamRef = Some 3, sourceRef = Some 4, isRecording = True,
      visualizationType = Straight, liveStreams = [3], opens = 2, closes = 1,
      connectedSources = [4], frames = [], nextId = 5,
      console = [''Recording stopped, cleaning up animation frame''],
      reads = [], uncaught = [], mounted = True, loading = Loaded,
      selectedDevice = ''mic-1'', audioContext = Some 2,
      analyserState = Some \<lparr>fftSize = 2048, minDecibels = - 90, maxDecibels = - 10,
                               smoothingTimeConstant = 0.85\<rparr>,
      debugInfo = RecordingStarted, animationFrameId = None, closedContexts = [],
      audioDevices = [''mic-1''], pendingRecordings = []\<rparr>"

text \<open>
  A frame closure of the second version whose render had \<^verbatim>\<open>isRecording\<close> true, and the
  recording state with that frame pending as request 5. The page does not get here: its
  button calls \<^verbatim>\<open>startRecording\<close> only from a render in which \<^verbatim>\<open>isRecording\<close> is false.
\<close>

definition loop2 :: "render closure" where
  "loop2 =
     \<lparr>capDataArray = replicate 1024 0, capBufferLength = 1024,
      capGeometry = \<lparr>width = 800, height = 400\<rparr>,
      capRender = \<lparr>selectedDeviceOf = ''mic-1'', isRecordingOf = True,
                    visualizationTypeOf = Straight, audioContextOf = None\<rparr>\<rparr>"

definition looping2 :: state2 where
  "looping2 = recording2\<lparr>frames := [(5, loop2)], nextId := 6, animationFrameId := Some 5\<rparr>"

subsection \<open>Two clicks before the first stream is granted\<close>

text \<open>
  The button shows Start until a granted \<^verbatim>\<open>getUserMedia\<close> has set \<^verbatim>\<open>isRecording\<close>, so a second
  click before that starts a second time. The events, in both versions: the mount effect
  finds \<^verbatim>\<open>mic-1\<close>, the button is clicked twice, and both requests are granted.
\<close>

definition twoStarts1 :: "event1 list" where
  "twoStarts1 =
     [StreamForDevices (Inr ()), DevicesEnumerated (Inr [''mic-1'']), ClickButton, ClickButton,
      StreamSettled (Inr ()) silence, StreamSettled (Inr ()) silence]"

definition twoStarts2 :: "event2 list" where
  "twoStarts2 =
     [StreamForDevices2 (Inr ()), DevicesEnumerated2 (Inr [''mic-1'']), ClickButton2, ClickButton2,
      StreamSettled2 0 (Inr ()) silence, StreamSettled2 0 (Inr ()) silence]"

text \<open>
  Where the first version is then: the second start has opened the stream 6 and the
  source node 7 and taken over both refs, cleared and drawn the canvas again, and asked
  for a frame of its own, 8, next to the frame 5 of the first start.
\<close>

definition overlapped1 :: state1 where
  "overlapped1 =
     recording1\<lparr>canvasRef := Some (flatLineCanvas\<lparr>painted := painted flatLineCanvas
                     @ [ClearRect 0 0 800 400] @ background1 800 400
                     @ drawLine (replicate 1024 128) 1024 800 400\<rparr>),
                streamRef := Some 6, sourceRef := Some 7, liveStreams := [1, 3, 6], opens := 3,
                connectedSources := [4, 7], frames := [(5, loop1), (8, loop1)], nextId := 9,
                reads := [TimeDomainData, TimeDomainData], animationRef := 8\<rparr>"

text \<open>
  Where the second version is after the two clicks (each has stopped, painting the
  cleared frame, and created an audio context, 2 and 3), and after both requests were
  granted: the streams 4 and 6 and the source nodes 5 and 7 are open, and the refs hold
  the later ones.
\<close>

definition waiting2 :: state2 where
  "waiting2 =
     idle2\<lparr>canvasRef := Some (pageCanvas\<lparr>painted := background2 pageCanvas
                                                        @ background2 pageCanvas\<rparr>),
           nextId := 4, debugInfo := RecordingStopped,
           pendingRecordings := [(pageRender, 2), (pageRender, 3)]\<rparr>"

definition overlapped2 :: state2 where
  "overlapped2 =
     recording2\<lparr>streamRef := Some 6, sourceRef := Some 7, liveStreams := [4, 6], opens := 3,
                connectedSources := [5, 7], nextId := 8,
                console := [''Recording stopped, cleaning up animation frame'',
                            ''Recording stopped, cleaning up animation frame''],
                audioContext := Some 3\<rparr>"

subsection \<open>A frame loop that never runs\<close>

text \<open>
  No frame is pending, the analyser was never read, the ref holds no frame handle, and
  every pending start was made by a render in which \<^verbatim>\<open>isRecording\<close> was false.
\<close>

definition stale2 :: "state2 \<Rightarrow> bool" where
  "stale2 s =
     (frames s = [] \<and> reads s = [] \<and> animationFrameId s = None
      \<and> list_all (\<lambda>p. isRecordingOf (fst p) = False) (pendingRecordings s))"

section \<open>The transforms: properties\<close>

subsection \<open>Waveform line\<close>

lemma drawLine_loop_closed:
  "n \<le> length d \<Longrightarrow>
   drawLine_loop d n h sw i x =
     map (\<lambda>j. (if j = 0 then MoveTo else LineTo) (x + real (j - i) * sw)
                 (drawLine_y h (real (unat (d ! j))))) [i..<n]"
proof (induction d n h sw i x rule: drawLine_loop.induct)
  case (1 d n h sw i x)
  let ?f = "\<lambda>i x j. (if j = 0 then MoveTo else LineTo) (x + real (j - i) * sw)
                 (drawLine_y h (real (unat (d ! j))))"
  show ?case
  proof (cases "i < n")
    case True
    have step: "drawLine_loop d n h sw i x = ?f i x i # drawLine_loop d n h sw (i + 1) (x + sw)"
      using True "1.prems" by (subst drawLine_loop.simps) (simp add: sample_def)
    have ih: "drawLine_loop d n h sw (i + 1) (x + sw) = map (?f (Suc i) (x + sw)) [Suc i..<n]"
      using "1.IH" True "1.prems" by simp
    have shift: "map (?f (Suc i) (x + sw)) [Suc i..<n] = map (?f i x) [Suc i..<n]"
    proof (rule map_cong[OF refl])
      fix j assume "j \<in> set [Suc i..<n]"
      then have "real (j - Suc i) = real (j - i) - 1" by (simp add: of_nat_diff)
      then show "?f (Suc i) (x + sw) j = ?f i x j" by (simp add: algebra_simps)
    qed
    show ?thesis unfolding step ih shift using True by (simp add: upt_conv_Cons)
  next
    case False
    then show ?thesis by (subst drawLine_loop.simps) simp
  qed
qed

lemma drawStraightLine_loop_closed:
  "drawStraightLine_loop d r sw i x =
     map (\<lambda>j. (if j = 0 then MoveTo else LineTo) (x + real (j - i) * sw)
                 (drawStraightLine_y r (real (unat (d ! j))))) [i..<length d]"
proof (induction d r sw i x rule: drawStraightLine_loop.induct)
  case (1 d r sw i x)
  let ?f = "\<lambda>i x j. (if j = 0 then MoveTo else LineTo) (x + real (j - i) * sw)
                 (drawStraightLine_y r (real (unat (d ! j))))"
  show ?case
  proof (cases "i < length d")
    case True
    have step: "drawStraightLine_loop d r sw i x = ?f i x i # drawStraightLine_loop d r sw (i + 1) (x + sw)"
      using True by (subst drawStraightLine_loop.simps) (simp add: Let_def)
    have ih: "drawStraightLine_loop d r sw (i + 1) (x + sw) = map (?f (Suc i) (x + sw)) [Suc i..<length d]"
      using "1.IH" True by simp
    have shift: "map (?f (Suc i) (x + sw)) [Suc i..<length d] = map (?f i x) [Suc i..<length d]"
    proof (rule map_cong[OF refl])
      fix j assume "j \<in> set [Suc i..<length d]"
      then have "real (j - Suc i) = real (j - i) - 1" by (simp add: of_nat_diff)
      then show "?f (Suc i) (x + sw) j = ?f i x j" by (simp add: algebra_simps)
    qed
    show ?thesis unfolding step ih shift using True by (simp add: upt_conv_Cons)
  next
    case False
    then show ?thesis by (subst drawStraightLine_loop.simps) simp
  qed
qed

lemma drawLine_y_affine: "drawLine_y h s = h - (h / 255) * s"
  by (simp add: drawLine_y_def Let_def algebra_simps)

lemma drawStraightLine_y_affine: "drawStraightLine_y r s = height r / 2 - (height r / 510) * s"
  by (simp add: drawStraightLine_y_def Let_def algebra_simps)


text \<open>
  Claim C1, as the code has it. For a positive height, both versions map the sample value
  to the y-coordinate by an affine, strictly decreasing function. The first version sends
  0 to the bottom edge \<open>h\<close> and 255 to the top edge 0; the second sends 0 to the vertical
  center \<open>h / 2\<close> and 255 to the top edge 0. Neither sends 128 to the center: the first
  version sends it to \<open>h / 2 - h / 510\<close>, the second to \<open>h / 2 - 128 * h / 510\<close>. A buffer of
  128-valued samples therefore gives one horizontal path at that height, sample \<open>j\<close> at
  \<open>x = j * (w / n)\<close> (the second version then strokes its guide line along the center).
\<close>

theorem waveform_line_y_mapping:
  assumes "0 < h"
  shows "(\<forall>s. drawLine_y h s = h - (h / 255) * s)
       \<and> (\<forall>s t. s < t \<longrightarrow> drawLine_y h t < drawLine_y h s)
       \<and> drawLine_y h 0 = h \<and> drawLine_y h 255 = 0
       \<and> drawLine_y h 128 = h / 2 - h / 510
       \<and> drawLine (replicate n 128) n w h =
           [LineWidth 2, StrokeStyle (Css ''#38bdf8''), BeginPath]
           @ map (\<lambda>j. (if j = 0 then MoveTo else LineTo) (real j * (w / real n)) (h / 2 - h / 510)) [0..<n]
           @ [Stroke]
       \<and> (\<forall>s. drawStraightLine_y \<lparr>width = w, height = h\<rparr> s = h / 2 - (h / 510) * s)
       \<and> (\<forall>s t. s < t \<longrightarrow> drawStraightLine_y \<lparr>width = w, height = h\<rparr> t
                                < drawStraightLine_y \<lparr>width = w, height = h\<rparr> s)
       \<and> drawStraightLine_y \<lparr>width = w, height = h\<rparr> 0 = h / 2
       \<and> drawStraightLine_y \<lparr>width = w, height = h\<rparr> 255 = 0
       \<and> drawStraightLine_y \<lparr>width = w, height = h\<rparr> 128 = h / 2 - h * 128 / 510
       \<and> drawStraightLine (replicate n 128) \<lparr>width = w, height = h\<rparr> =
           [LineWidth 2, StrokeStyle (Css ''rgb(0, 255, 0)''), BeginPath]
           @ map (\<lambda>j. (if j = 0 then MoveTo else LineTo) (real j * (w / real n)) (h / 2 - h * 128 / 510)) [0..<n]
           @ [Stroke, BeginPath, StrokeStyle (Css ''rgba(255, 255, 255, 0.2)''),
              MoveTo 0 (h / 2), LineTo w (h / 2), Stroke]"
proof -
  have mono1: "drawLine_y h t < drawLine_y h s" if "s < t" for s t
  proof -
    have "(h / 255) * s < (h / 255) * t" using assms that by simp
    then show ?thesis by (simp add: drawLine_y_affine)
  qed
  have mono2: "drawStraightLine_y \<lparr>width = w, height = h\<rparr> t < drawStraightLine_y \<lparr>width = w, height = h\<rparr> s"
    if "s < t" for s t
  proof -
    have "(h / 510) * s < (h / 510) * t" using assms that by simp
    then show ?thesis by (simp add: drawStraightLine_y_affine)
  qed
  have path1: "drawLine (replicate n 128) n w h =
           [LineWidth 2, StrokeStyle (Css ''#38bdf8''), BeginPath]
           @ map (\<lambda>j. (if j = 0 then MoveTo else LineTo) (real j * (w / real n)) (h / 2 - h / 510)) [0..<n]
           @ [Stroke]"
  proof -
    have "map (\<lambda>j. (if j = 0 then MoveTo else LineTo) (0 + real (j - 0) * (w / real n))
                 (drawLine_y h (real (unat (replicate n (128::u8) ! j))))) [0..<n]
        = map (\<lambda>j. (if j = 0 then MoveTo else LineTo) (real j * (w / real n)) (h / 2 - h / 510)) [0..<n]"
    proof (rule map_cong[OF refl])
      fix j assume "j \<in> set [0..<n]"
      then have "real (unat (replicate n (128::u8) ! j)) = 128" by simp
      then show "(if j = 0 then MoveTo else LineTo) (0 + real (j - 0) * (w / real n))
                 (drawLine_y h (real (unat (replicate n (128::u8) ! j))))
          = (if j = 0 then MoveTo else LineTo) (real j * (w / real n)) (h / 2 - h / 510)"
        by (simp add: drawLine_y_affine)
    qed
    then show ?thesis
      by (simp add: drawLine_def Let_def drawLine_loop_closed)
  qed
  have path2: "drawStraightLine (replicate n 128) \<lparr>width = w, height = h\<rparr> =
           [LineWidth 2, StrokeStyle (Css ''rgb(0, 255, 0)''), BeginPath]
           @ map (\<lambda>j. (if j = 0 then MoveTo else LineTo) (real j * (w / real n)) (h / 2 - h * 128 / 510)) [0..<n]
           @ [Stroke, BeginPath, StrokeStyle (Css ''rgba(255, 255, 255, 0.2)''),
              MoveTo 0 (h / 2), LineTo w (h / 2), Stroke]"
  proof -
    have "map (\<lambda>j. (if j = 0 then MoveTo else LineTo) (0 + real (j - 0) * (w / real n))
                 (drawStraightLine_y \<lparr>width = w, height = h\<rparr> (real (unat (replicate n (128::u8) ! j))))) [0..<n]
        = map (\<lambda>j. (if j = 0 then MoveTo else LineTo) (real j * (w / real n)) (h / 2 - h * 128 / 510)) [0..<n]"
    proof (rule map_cong[OF refl])
      fix j assume "j \<in> set [0..<n]"
      then have "real (unat (replicate n (128::u8) ! j)) = 128" by simp
      then show "(if j = 0 then MoveTo else LineTo) (0 + real (j - 0) * (w / real n))
                 (drawStraightLine_y \<lparr>width = w, height = h\<rparr> (real (unat (replicate n (128::u8) ! j))))
          = (if j = 0 then MoveTo else LineTo) (real j * (w / real n)) (h / 2 - h * 128 / 510)"
        by (simp add: drawStraightLine_y_affine)
    qed
    then show ?thesis
      by (simp add: drawStraightLine_def Let_def drawStraightLine_loop_closed)
  qed
  show ?thesis
    using mono1 mono2 path1 path2
    by (simp add: drawLine_y_affine drawStraightLine_y_affine)
qed

theorem waveform_line_y_mapping_witness:
  "(0::real) < 510
   \<and> drawLine_y 510 128 = 254
   \<and> drawLine (replicate 2 128) 2 800 510 =
       [LineWidth 2, StrokeStyle (Css ''#38bdf8''), BeginPath, MoveTo 0 254, LineTo 400 254, Stroke]
   \<and> drawStraightLine_y \<lparr>width = 800, height = 510\<rparr> 128 = 127"
  using waveform_line_y_mapping [of 510 2 800]
  by (simp add: upt_conv_Cons)

text \<open>
  The sample value 128 is not mapped to the vertical center: on a surface of height 510 the
  first version draws the all-128 buffer along \<open>y = 254\<close>, not 255, and the second version
  maps 128 to 127 and the sample value 0, not an extreme, to the center.
\<close>

theorem waveform_line_center_counterexample:
  "drawLine [128, 128] 2 800 510 =
     [LineWidth 2, StrokeStyle (Css ''#38bdf8''), BeginPath, MoveTo 0 254, LineTo 400 254, Stroke]
   \<and> drawLine_y 510 128 \<noteq> 510 / 2
   \<and> drawStraightLine_y \<lparr>width = 800, height = 510\<rparr> 128 \<noteq> 510 / 2
   \<and> drawStraightLine_y \<lparr>width = 800, height = 510\<rparr> 0 = 510 / 2"
  by (simp add: drawLine_def drawLine_loop.simps sample_def drawLine_y_def drawStraightLine_y_def Let_def)





lemma drawCircle1_first_point:
  "0 < n \<Longrightarrow> d \<noteq> [] \<Longrightarrow>
   (case point1 n cx cy b 0 (real (unat (d ! 0))) of (x, y) \<Rightarrow> Arc x y 2 0 (2 * pi))
     \<in> set (drawCircle1_loop d n cx cy b 0)"
  by (subst drawCircle1_loop.simps) (auto simp: drawCircle1_body_def sample_def split: prod.splits)


subsection \<open>Radial\<close>








text \<open>
  Claim C10. The radial transform plots outside the surface. In the second version, on a
  square surface of side \<open>s > 0\<close>, a 255-valued sample at index 0 is plotted at distance
  \<open>0.6 * s\<close> to the right of the center, at \<open>x = s / 2 + 0.6 * s > s\<close>. In the first version,
  on a surface with \<open>w \<le> h\<close> and \<open>w < 200\<close>, a 255-valued sample at index 0 is plotted at
  distance \<open>w / 4 + 50\<close> to the right of the center, at \<open>x > w\<close>.
\<close>

theorem radial_leaves_surface:
  assumes "0 < s" and "d \<noteq> []" and "d ! 0 = 255"
    and "0 \<le> w" and "w \<le> h" and "w < 200" and "0 < n"
  shows "radius2 (baseRadius2 \<lparr>width = s, height = s\<rparr>) 255 = 0.6 * min s s
       \<and> MoveTo (s / 2 + 0.6 * s) (s / 2) \<in> set (fst (drawCircle2 d \<lparr>width = s, height = s\<rparr>))
       \<and> s < s / 2 + 0.6 * s
       \<and> pointRadius1 (min w h / 4) 255 = min w h / 4 + 50
       \<and> Arc (w / 2 + (w / 4 + 50)) (h / 2) 2 0 (2 * pi) \<in> set (fst (drawCircle1 d n w h))
       \<and> w < w / 2 + (w / 4 + 50)"
proof -
  have u: "real (unat (d ! 0)) = 255" using assms(3) by simp
  have a: "radius2 (baseRadius2 \<lparr>width = s, height = s\<rparr>) 255 = 0.6 * min s s"
    by (simp add: radius2_def baseRadius2_def Let_def)
  have first2: "drawCircle2_loop d \<lparr>width = s, height = s\<rparr> 0
      = MoveTo (s / 2 + 0.6 * s) (s / 2) # drawCircle2_loop d \<lparr>width = s, height = s\<rparr> (0 + 1)"
    using assms(2) u
    by (subst drawCircle2_loop.simps) (simp add: point2_def radius2_def baseRadius2_def Let_def)
  have b: "MoveTo (s / 2 + 0.6 * s) (s / 2) \<in> set (fst (drawCircle2 d \<lparr>width = s, height = s\<rparr>))"
    using assms(1) unfolding drawCircle2_def Let_def first2
    by (simp add: baseRadius2_def Let_def)
  have c: "s < s / 2 + 0.6 * s" using assms(1) by simp
  have e: "pointRadius1 (min w h / 4) 255 = min w h / 4 + 50"
    by (simp add: pointRadius1_def Let_def)
  have m: "min w h = w" using assms(5) by simp
  have "Arc (w / 2 + (w / 4 + 50)) (h / 2) 2 0 (2 * pi)
          \<in> set (drawCircle1_loop d n (w / 2) (h / 2) (w / 4) 0)"
    using drawCircle1_first_point[OF assms(7) assms(2), of "w / 2" "h / 2" "w / 4"] u
    by (simp add: point1_def pointRadius1_def Let_def)
  then have f: "Arc (w / 2 + (w / 4 + 50)) (h / 2) 2 0 (2 * pi) \<in> set (fst (drawCircle1 d n w h))"
    using assms(4) unfolding drawCircle1_def Let_def m by simp
  have g: "w < w / 2 + (w / 4 + 50)" using assms(6) by simp
  from a b c e f g show ?thesis by blast
qed

theorem radial_leaves_surface_witness:
  "(0::real) < 400 \<and> [255::u8] \<noteq> [] \<and> [255::u8] ! 0 = 255
   \<and> (0::real) \<le> 100 \<and> (100::real) \<le> 100 \<and> (100::real) < 200 \<and> (0::nat) < 1
   \<and> MoveTo 440 200 \<in> set (fst (drawCircle2 [255] \<lparr>width = 400, height = 400\<rparr>))
   \<and> (400::real) < 440
   \<and> Arc 125 50 2 0 (2 * pi) \<in> set (fst (drawCircle1 [255] 1 100 100))
   \<and> (100::real) < 125"
  using radial_leaves_surface [of 400 "[255]" 100 100 1]
  by simp

subsection \<open>Bars\<close>

lemma drawBars1_loop_x:
  "0 \<le> bw \<Longrightarrow> x \<le> w \<Longrightarrow> FillRect x' y' bw' bh' \<in> set (drawBars1_loop d n w h bw i x) \<Longrightarrow>
   x \<le> x' \<and> x' \<le> w"
proof (induction d n w h bw i x rule: drawBars1_loop.induct)
  case (1 d n w h bw i x)
  show ?case
  proof (cases "i < n")
    case True
    from "1.prems"(3) True
    have "FillRect x' y' bw' bh' \<in> set (case sample d i of None \<Rightarrow> []
            | Some s \<Rightarrow> (let barHeight = (real s / 255) * h in
                [FillStyle (Rgb (s + 100) 134 244), FillRect x (h - barHeight) bw barHeight]))
        \<or> (\<not> x + (bw + 1) > w \<and>
            FillRect x' y' bw' bh' \<in> set (drawBars1_loop d n w h bw (i + 1) (x + (bw + 1))))"
      by (subst (asm) drawBars1_loop.simps) (auto split: if_splits)
    then show ?thesis
    proof
      assume "FillRect x' y' bw' bh' \<in> set (case sample d i of None \<Rightarrow> []
            | Some s \<Rightarrow> (let barHeight = (real s / 255) * h in
                [FillStyle (Rgb (s + 100) 134 244), FillRect x (h - barHeight) bw barHeight]))"
      then have "x' = x" by (auto simp: Let_def split: option.splits)
      then show ?thesis using "1.prems"(2) by simp
    next
      assume a: "\<not> x + (bw + 1) > w \<and>
            FillRect x' y' bw' bh' \<in> set (drawBars1_loop d n w h bw (i + 1) (x + (bw + 1)))"
      then have "x + (bw + 1) \<le> x' \<and> x' \<le> w"
        using "1.IH"[OF True _ "1.prems"(1)] by simp
      then show ?thesis using "1.prems"(1) by simp
    qed
  next
    case False
    with "1.prems"(3) show ?thesis by (subst (asm) drawBars1_loop.simps) simp
  qed
qed


lemma drawBars2_loop_closed:
  "drawBars2_loop d r i x =
     concat (map (\<lambda>j. [FillStyle (LinearGradient 0 (height r) 0
                                     (height r - height r * (real (unat (d ! j)) / 255))
                                     [(0, ''rgb(0, 255, 0)''), (1, ''rgb(0, 128, 0)'')]),
                        FillRect (x + real (j - i) * (barWidth2 d r + barSpacing2 d r))
                                 (height r - height r * (real (unat (d ! j)) / 255))
                                 (barWidth2 d r)
                                 (height r * (real (unat (d ! j)) / 255))]) [i..<length d])"
proof (induction d r i x rule: drawBars2_loop.induct)
  case (1 d r i x)
  let ?st = "barWidth2 d r + barSpacing2 d r"
  let ?f = "\<lambda>i x j. [FillStyle (LinearGradient 0 (height r) 0
                                     (height r - height r * (real (unat (d ! j)) / 255))
                                     [(0, ''rgb(0, 255, 0)''), (1, ''rgb(0, 128, 0)'')]),
                        FillRect (x + real (j - i) * ?st)
                                 (height r - height r * (real (unat (d ! j)) / 255))
                                 (barWidth2 d r)
                                 (height r * (real (unat (d ! j)) / 255))]"
  show ?case
  proof (cases "i < length d")
    case True
    have step: "drawBars2_loop d r i x = ?f i x i @ drawBars2_loop d r (i + 1) (x + ?st)"
      using True by (subst drawBars2_loop.simps) (simp add: Let_def)
    have ih: "drawBars2_loop d r (i + 1) (x + ?st) = concat (map (?f (Suc i) (x + ?st)) [Suc i..<length d])"
      using "1.IH" True by simp
    have shift: "map (?f (Suc i) (x + ?st)) [Suc i..<length d] = map (?f i x) [Suc i..<length d]"
    proof (rule map_cong[OF refl])
      fix j assume "j \<in> set [Suc i..<length d]"
      then have "real (j - Suc i) = real (j - i) - 1" by (simp add: of_nat_diff)
      then show "?f (Suc i) (x + ?st) j = ?f i x j" by (simp add: algebra_simps)
    qed
    show ?thesis unfolding step ih shift using True by (simp add: upt_conv_Cons)
  next
    case False
    then show ?thesis by (subst drawBars2_loop.simps) simp
  qed
qed

lemma slot2: "d \<noteq> [] \<Longrightarrow> barWidth2 d r + barSpacing2 d r = width r / real (length d)"
  by (simp add: barWidth2_def barSpacing2_def field_simps)

lemma drawBars2_within:
  assumes "0 \<le> width r" and "FillRect x y bw bh \<in> set (drawBars2 d r)"
  shows "0 \<le> x \<and> x + bw \<le> width r"
proof -
  let ?n = "real (length d)"
  from assms(2) obtain j where j: "j < length d"
    and x: "x = real j * (barWidth2 d r + barSpacing2 d r)" and bw: "bw = barWidth2 d r"
    by (auto simp: drawBars2_def drawBars2_loop_closed)
  from j have ne: "d \<noteq> []" and n0: "0 < ?n" by auto
  have x': "x = real j * (width r / ?n)" using x slot2[OF ne] by simp
  have unit: "0 \<le> width r / ?n" using assms(1) n0 by simp
  have lo: "0 \<le> x" unfolding x' using unit by (rule mult_nonneg_nonneg[OF of_nat_0_le_iff])
  have "real j + 0.8 \<le> ?n"
  proof -
    from j have "real j + 1 \<le> ?n" by linarith
    then show ?thesis by simp
  qed
  then have "(real j + 0.8) * (width r / ?n) \<le> ?n * (width r / ?n)"
    using unit by (rule mult_right_mono)
  also have "?n * (width r / ?n) = width r" using n0 by simp
  finally have "(real j + 0.8) * (width r / ?n) \<le> width r" .
  moreover have "x + bw = (real j + 0.8) * (width r / ?n)"
    unfolding x' bw barWidth2_def by (simp add: algebra_simps)
  ultimately show ?thesis using lo by simp
qed

text \<open>
  Claim C3, as the code has it, for a surface of non-negative width. In the first version
  every bar drawn starts at an \<open>x\<close> in \<open>[0, w]\<close>: the loop stops as soon as the next position
  exceeds the width. In the second version every one of the \<open>N\<close> bars is drawn, bar \<open>j\<close> at
  \<open>x = j * (barWidth + barSpacing)\<close>; each lies within \<open>[0, width]\<close> with its whole width, and
  the bar widths plus gaps add up to the width of the surface.
\<close>

theorem bars_on_surface:
  assumes "0 \<le> w" and "0 \<le> width r"
  shows "(\<forall>x y bw bh. FillRect x y bw bh \<in> set (drawBars1 d n w h) \<longrightarrow> 0 \<le> x \<and> x \<le> w)
       \<and> (\<forall>x y bw bh. FillRect x y bw bh \<in> set (drawBars2 d r) \<longrightarrow> 0 \<le> x \<and> x + bw \<le> width r)
       \<and> (d \<noteq> [] \<longrightarrow> real (length d) * (barWidth2 d r + barSpacing2 d r) = width r)
       \<and> drawBars2 d r =
           concat (map (\<lambda>j. [FillStyle (LinearGradient 0 (height r) 0
                                           (height r - height r * (real (unat (d ! j)) / 255))
                                           [(0, ''rgb(0, 255, 0)''), (1, ''rgb(0, 128, 0)'')]),
                              FillRect (real j * (barWidth2 d r + barSpacing2 d r))
                                       (height r - height r * (real (unat (d ! j)) / 255))
                                       (barWidth2 d r)
                                       (height r * (real (unat (d ! j)) / 255))]) [0..<length d])"
proof -
  have bw0: "0 \<le> (w / real n) * 2.5" using assms(1) by simp
  have v1: "\<forall>x y bw bh. FillRect x y bw bh \<in> set (drawBars1 d n w h) \<longrightarrow> 0 \<le> x \<and> x \<le> w"
    unfolding drawBars1_def Let_def
    using drawBars1_loop_x[OF bw0 assms(1)] by blast
  have v2: "\<forall>x y bw bh. FillRect x y bw bh \<in> set (drawBars2 d r) \<longrightarrow> 0 \<le> x \<and> x + bw \<le> width r"
    using drawBars2_within[OF assms(2)] by blast
  have tot: "d \<noteq> [] \<longrightarrow> real (length d) * (barWidth2 d r + barSpacing2 d r) = width r"
    by (simp add: slot2)
  have cl: "drawBars2 d r =
           concat (map (\<lambda>j. [FillStyle (LinearGradient 0 (height r) 0
                                           (height r - height r * (real (unat (d ! j)) / 255))
                                           [(0, ''rgb(0, 255, 0)''), (1, ''rgb(0, 128, 0)'')]),
                              FillRect (real j * (barWidth2 d r + barSpacing2 d r))
                                       (height r - height r * (real (unat (d ! j)) / 255))
                                       (barWidth2 d r)
                                       (height r * (real (unat (d ! j)) / 255))]) [0..<length d])"
    by (simp add: drawBars2_def drawBars2_loop_closed)
  from v1 v2 tot cl show ?thesis by blast
qed

theorem bars_on_surface_witness:
  "(0::real) \<le> 400
   \<and> drawBars2 [255, 0, 255, 0] \<lparr>width = 400, height = 200\<rparr> =
       [FillStyle (LinearGradient 0 200 0 0 [(0, ''rgb(0, 255, 0)''), (1, ''rgb(0, 128, 0)'')]),
        FillRect 0 0 80 200,
        FillStyle (LinearGradient 0 200 0 200 [(0, ''rgb(0, 255, 0)''), (1, ''rgb(0, 128, 0)'')]),
        FillRect 100 200 80 0,
        FillStyle (LinearGradient 0 200 0 0 [(0, ''rgb(0, 255, 0)''), (1, ''rgb(0, 128, 0)'')]),
        FillRect 200 0 80 200,
        FillStyle (LinearGradient 0 200 0 200 [(0, ''rgb(0, 255, 0)''), (1, ''rgb(0, 128, 0)'')]),
        FillRect 300 200 80 0]
   \<and> (4::real) * (barWidth2 [255, 0, 255, 0] \<lparr>width = 400, height = 200\<rparr>
                   + barSpacing2 [255, 0, 255, 0] \<lparr>width = 400, height = 200\<rparr>) = 400"
  using bars_on_surface [where w = 400 and r = "\<lparr>width = 400, height = 200\<rparr>" and d = "[255, 0, 255, 0]"]
  by (simp add: barWidth2_def barSpacing2_def upt_conv_Cons)

text \<open>
  In the first version the last bar drawn can reach beyond the surface: for four samples
  on a 400 by 200 surface the bars are 250 wide, the second starts at 251 and ends at 501.
\<close>

theorem bars_total_width_counterexample:
  "drawBars1 [255, 0, 255, 0] 4 400 200 =
     [FillStyle (Rgb 355 134 244), FillRect 0 0 250 200,
      FillStyle (Rgb 100 134 244), FillRect 251 200 250 0]
   \<and> (400::real) < 251 + 250"
  by (simp add: drawBars1_def drawBars1_loop.simps sample_def Let_def)

section \<open>The controller: what each function does to the state\<close>

lemmas host_defs = requestAnimationFrame_def cancelAnimationFrame_def getUserMedia_def
  stopTracks_def connectSource_def disconnect_def paint_def logConsole_def

subsection \<open>First version\<close>

lemma draw_nf:
  "draw e a s =
     (s\<lparr>canvasRef := map_option
            (\<lambda>c. c\<lparr>painted := painted c
                       @ background1 (width (capGeometry e)) (height (capGeometry e))
                       @ fst (dispatch1 (visualizationTypeRef s) (byteData1 (visualizationTypeRef s) e a)
                                (capBufferLength e) (width (capGeometry e)) (height (capGeometry e)))\<rparr>)
            (canvasRef s),
        frames := frames s @ [(nextId s, e\<lparr>capDataArray := byteData1 (visualizationTypeRef s) e a\<rparr>)],
        nextId := nextId s + 1,
        reads := reads s @ [asked1 (visualizationTypeRef s)],
        animationRef := nextId s\<rparr>,
      snd (dispatch1 (visualizationTypeRef s) (byteData1 (visualizationTypeRef s) e a)
             (capBufferLength e) (width (capGeometry e)) (height (capGeometry e))))"
  by (cases "canvasRef s")
     (simp_all add: draw_def Let_def host_defs split: prod.splits)

lemma visualize_nf:
  "canvasRef s = Some c \<Longrightarrow> context2d c \<Longrightarrow> analyserRef s = Some an \<Longrightarrow>
   visualize a s =
     draw \<lparr>capDataArray = replicate (frequencyBinCount an) 0, capBufferLength = frequencyBinCount an,
            capGeometry = \<lparr>width = width c, height = height c\<rparr>, capRender = ()\<rparr> a
          (s\<lparr>canvasRef := Some (c\<lparr>painted := painted c @ [ClearRect 0 0 (width c) (height c)]\<rparr>)\<rparr>)"
  by (simp add: visualize_def Let_def paint_def)

lemma visualize_none:
  "canvasRef s = None \<or> analyserRef s = None \<or> (\<exists>c. canvasRef s = Some c \<and> \<not> context2d c) \<Longrightarrow>
   visualize a s = (s, None)"
  by (auto simp: visualize_def split: option.splits)

lemma draw_session: "session (fst (draw e a s)) = session s"
  by (simp add: draw_nf session_def)

lemma visualize_session: "session (fst (visualize a s)) = session s"
proof (cases "canvasRef s")
  case None
  then show ?thesis by (simp add: visualize_none)
next
  case (Some c)
  show ?thesis
  proof (cases "analyserRef s")
    case None
    then show ?thesis by (simp add: visualize_none)
  next
    case an: (Some an)
    show ?thesis
    proof (cases "context2d c")
      case True
      show ?thesis
        unfolding visualize_nf[OF Some True an] draw_session
        by (simp add: session_def)
    next
      case False
      with Some have "visualize a s = (s, None)" by (intro visualize_none) auto
      then show ?thesis by simp
    qed
  qed
qed

subsection \<open>Stopping\<close>

lemma stopVisualization_nf:
  "stopVisualization s =
     s\<lparr>streamRef := None, sourceRef := None, isRecording := False,
       liveStreams := (case streamRef s of None \<Rightarrow> liveStreams s | Some i \<Rightarrow> removeAll i (liveStreams s)),
       closes := closes s + (case streamRef s of None \<Rightarrow> 0 | Some i \<Rightarrow> 1),
       connectedSources := (case sourceRef s of None \<Rightarrow> connectedSources s
                            | Some i \<Rightarrow> removeAll i (connectedSources s)),
       frames := (if animationRef s \<noteq> 0
                  then filter (\<lambda>f. fst f \<noteq> animationRef s) (frames s) else frames s)\<rparr>"
  by (cases "animationRef s = 0"; cases "streamRef s"; cases "sourceRef s")
     (simp_all add: stopVisualization_def Let_def host_defs)

lemma stopVisualization_idem: "stopVisualization (stopVisualization s) = stopVisualization s"
  by (subst stopVisualization_nf[of "stopVisualization s"]) (simp add: stopVisualization_nf)

lemma stopVisualization_idle:
  "\<not> isRecording s \<Longrightarrow> streamRef s = None \<Longrightarrow> sourceRef s = None \<Longrightarrow> frames s = [] \<Longrightarrow>
   stopVisualization s = s"
  by (simp add: stopVisualization_nf)

lemma stopRecording_nf:
  "stopRecording r s =
     s\<lparr>canvasRef := map_option (\<lambda>c. c\<lparr>painted := painted c @ clearedFrame c\<rparr>) (canvasRef s),
       streamRef := None, sourceRef := None, isRecording := False,
       liveStreams := (case streamRef s of None \<Rightarrow> liveStreams s | Some i \<Rightarrow> removeAll i (liveStreams s)),
       closes := closes s + (case streamRef s of None \<Rightarrow> 0 | Some i \<Rightarrow> 1),
       connectedSources := (case sourceRef s of None \<Rightarrow> connectedSources s | Some i \<Rightarrow> removeAll i (connectedSources s)),
       frames := (if truthy (animationFrameId s)
                  then filter (\<lambda>f. fst f \<noteq> the (animationFrameId s)) (frames s) else frames s),
       audioContext := (case audioContextOf r of None \<Rightarrow> audioContext s | Some c \<Rightarrow> None),
       analyserState := None, debugInfo := RecordingStopped,
       animationFrameId := (if truthy (animationFrameId s) then None else animationFrameId s),
       closedContexts := (case audioContextOf r of None \<Rightarrow> closedContexts s
                          | Some c \<Rightarrow> closedContexts s @ [c])\<rparr>"
  by (cases "truthy (animationFrameId s)"; cases "streamRef s"; cases "sourceRef s"; cases "audioContextOf r")
     (simp_all add: stopRecording_def Let_def host_defs)

lemma filter_handle_none:
  "fst ` set fs \<subseteq> {h} \<Longrightarrow> filter (\<lambda>f. fst f \<noteq> h) fs = []"
  by (induction fs) auto

lemma stopVisualization_frames:
  assumes "fst ` set (frames s) \<subseteq> {animationRef s} - {0}"
  shows "frames (stopVisualization s) = []"
proof (cases "animationRef s = 0")
  case True
  with assms have "frames s = []" by (cases "frames s") auto
  then show ?thesis by (simp add: stopVisualization_nf)
next
  case False
  from assms have "fst ` set (frames s) \<subseteq> {animationRef s}" by auto
  then show ?thesis using False by (simp add: stopVisualization_nf filter_handle_none)
qed

lemma stopRecording_frames:
  assumes "fst ` set (frames s) \<subseteq> (case animationFrameId s of None \<Rightarrow> {} | Some h \<Rightarrow> {h} - {0})"
  shows "frames (stopRecording r s) = []"
proof (cases "truthy (animationFrameId s)")
  case True
  then obtain h where h: "animationFrameId s = Some h" "h \<noteq> 0"
    by (auto simp: truthy_def split: option.splits)
  with assms have "fst ` set (frames s) \<subseteq> {h}" by auto
  then show ?thesis using True h by (simp add: stopRecording_nf filter_handle_none)
next
  case False
  with assms have "frames s = []"
    by (cases "frames s") (auto simp: truthy_def split: option.splits)
  then show ?thesis by (simp add: stopRecording_nf)
qed

lemma stopRecording_fields:
  "isRecording (stopRecording r s) = False"
  "streamRef (stopRecording r s) = None"
  "sourceRef (stopRecording r s) = None"
  "debugInfo (stopRecording r s) = RecordingStopped"
  "truthy (animationFrameId (stopRecording r s)) = False"
  "opens (stopRecording r s) = opens s"
  "uncaught (stopRecording r s) = uncaught s"
  "console (stopRecording r s) = console s"
  "reads (stopRecording r s) = reads s"
  "nextId (stopRecording r s) = nextId s"
  "frames (stopRecording r s)
     = (if truthy (animationFrameId s)
        then filter (\<lambda>f. fst f \<noteq> the (animationFrameId s)) (frames s) else frames s)"
  "liveStreams (stopRecording r s)
     = (case streamRef s of None \<Rightarrow> liveStreams s | Some i \<Rightarrow> removeAll i (liveStreams s))"
  "closes (stopRecording r s) = closes s + (case streamRef s of None \<Rightarrow> 0 | Some i \<Rightarrow> 1)"
  by (simp_all add: stopRecording_nf truthy_def)

lemma stopRecording_again:
  "stopRecording r2 (stopRecording r t) =
     (paint clearedFrame (stopRecording r t))
       \<lparr>audioContext := (case audioContextOf r2 of None \<Rightarrow> audioContext (stopRecording r t)
                          | Some c \<Rightarrow> None),
        closedContexts := closedContexts (stopRecording r t)
                          @ (case audioContextOf r2 of None \<Rightarrow> [] | Some c \<Rightarrow> [c])\<rparr>"
  by (subst stopRecording_nf[of r2 "stopRecording r t"])
     (cases "audioContextOf r2"; simp add: stopRecording_fields paint_def, simp add: stopRecording_nf)

lemma stopRecording_twice:
  "stopRecording r (stopRecording r t) =
     (paint clearedFrame (stopRecording r t))
       \<lparr>closedContexts := closedContexts (stopRecording r t)
                          @ (case audioContextOf r of None \<Rightarrow> [] | Some c \<Rightarrow> [c])\<rparr>"
  unfolding stopRecording_again
  by (cases "audioContextOf r") (simp_all add: stopRecording_nf paint_def)

lemma stopRecording_next_render:
  "stopRecording (render (stopRecording (render t) t)) (stopRecording (render t) t)
     = paint clearedFrame (stopRecording (render t) t)"
  unfolding stopRecording_again
  by (cases "audioContext t") (simp_all add: render_def stopRecording_nf paint_def)

lemma stopRecording_again_session:
  "session (stopRecording r2 (stopRecording r t)) = session (stopRecording r t)
   \<and> frames (stopRecording r2 (stopRecording r t)) = frames (stopRecording r t)"
  unfolding stopRecording_again by (simp add: session_def paint_def)

subsection \<open>Second version\<close>

lemma drawFrame_idle:
  "\<not> isRecordingOf (capRender e) \<Longrightarrow>
   drawFrame e a s =
     s\<lparr>frames := (if truthy (animationFrameId s)
                  then filter (\<lambda>f. fst f \<noteq> the (animationFrameId s)) (frames s) else frames s),
       console := console s @ [''Recording stopped, cleaning up animation frame''],
       animationFrameId := (if truthy (animationFrameId s) then None else animationFrameId s)\<rparr>"
  by (cases "truthy (animationFrameId s)") (simp_all add: drawFrame_def Let_def host_defs)

lemma drawFrame_ok:
  "isRecordingOf (capRender e) \<Longrightarrow>
   snd (dispatch2 (visualizationTypeOf (capRender e))
          (getByteData (capDataArray e) (frequencyData a)) (capGeometry e)) = None \<Longrightarrow>
   drawFrame e a s =
     s\<lparr>canvasRef := map_option
            (\<lambda>c. c\<lparr>painted := painted c @ background2 c
                       @ fst (dispatch2 (visualizationTypeOf (capRender e))
                                (getByteData (capDataArray e) (frequencyData a)) (capGeometry e))\<rparr>)
            (canvasRef s),
       frames := frames s @ [(nextId s, e\<lparr>capDataArray := getByteData (capDataArray e) (frequencyData a)\<rparr>)],
       nextId := nextId s + 1,
       reads := reads s @ [FrequencyData],
       debugInfo := frameStats (capBufferLength e) (getByteData (capDataArray e) (frequencyData a))
                      (capGeometry e),
       animationFrameId := Some (nextId s)\<rparr>"
  by (cases "canvasRef s")
     (simp_all add: drawFrame_def Let_def host_defs case_prod_beta)

lemma drawFrame_thrown:
  "isRecordingOf (capRender e) \<Longrightarrow>
   snd (dispatch2 (visualizationTypeOf (capRender e))
          (getByteData (capDataArray e) (frequencyData a)) (capGeometry e)) = Some err \<Longrightarrow>
   drawFrame e a s =
     stopRecording (capRender e)
       (logConsole ''Error in visualization:''
          (paint (\<lambda>c. fst (dispatch2 (visualizationTypeOf (capRender e))
                              (getByteData (capDataArray e) (frequencyData a)) (capGeometry e)))
             (paint background2 (s\<lparr>reads := reads s @ [FrequencyData]\<rparr>))))"
  by (simp add: drawFrame_def Let_def case_prod_beta)

lemma draw2_nf:
  "canvasRef s = Some c \<Longrightarrow> context2d c \<Longrightarrow>
   draw2 r an a s =
     drawFrame \<lparr>capDataArray = replicate (frequencyBinCount an) 0,
                 capBufferLength = frequencyBinCount an,
                 capGeometry = boundingClientRect c, capRender = r\<rparr> a
       (s\<lparr>canvasRef := Some (c\<lparr>width := setDimension 300 (width (boundingClientRect c)),
                                 height := setDimension 150 (height (boundingClientRect c)),
                                 painted := []\<rparr>)\<rparr>)"
  by (simp add: draw2_def Let_def)

lemma draw2_missing:
  "canvasRef s = None \<or> (\<exists>c. canvasRef s = Some c \<and> \<not> context2d c) \<Longrightarrow>
   draw2 r an a s = s\<lparr>console := console s @ [''Missing required elements:''], debugInfo := CannotDraw\<rparr>"
  by (auto simp: draw2_def logConsole_def split: option.splits)

subsection \<open>The session\<close>

lemma session_paint [simp]: "session (paint f s) = session s"
  by (simp add: session_def paint_def)

lemma session_logConsole [simp]: "session (logConsole m s) = session s"
  by (simp add: session_def logConsole_def)

lemma session_catchStart1: "session (catchStart1 p) = session (fst p)"
  by (cases p; cases "snd p") (simp_all add: catchStart1_def)

lemma session_ensureAudioContext: "session (ensureAudioContext s) = session s"
  by (cases "audioContextRef s") (simp_all add: ensureAudioContext_def session_def)

lemma session_openSession1:
  "session (openSession1 s) =
     (Some (nextId s), Some (nextId s + 1), True, liveStreams s @ [nextId s], opens s + 1, closes s,
      connectedSources s @ [nextId s + 1])"
  by (simp add: openSession1_def Let_def getUserMedia_def connectSource_def session_def)



lemma start1_granted:
  "selected \<noteq> [] \<Longrightarrow>
   startVisualization selected (Inr u) a s =
     catchStart1 (visualize a (openSession1 (ensureAudioContext s)))"
  by (simp add: startVisualization_def startVisualization_resume_def)

lemma session_stopVisualization:
  "session (stopVisualization s) =
     (None, None, False,
      (case streamRef s of None \<Rightarrow> liveStreams s | Some i \<Rightarrow> removeAll i (liveStreams s)),
      opens s, closes s + (case streamRef s of None \<Rightarrow> 0 | Some i \<Rightarrow> 1),
      (case sourceRef s of None \<Rightarrow> connectedSources s | Some i \<Rightarrow> removeAll i (connectedSources s)))"
  by (simp add: stopVisualization_nf session_def)

lemma session_stopRecording:
  "session (stopRecording r s) =
     (None, None, False,
      (case streamRef s of None \<Rightarrow> liveStreams s | Some i \<Rightarrow> removeAll i (liveStreams s)),
      opens s, closes s + (case streamRef s of None \<Rightarrow> 0 | Some i \<Rightarrow> 1),
      (case sourceRef s of None \<Rightarrow> connectedSources s | Some i \<Rightarrow> removeAll i (connectedSources s)))"
  by (simp add: stopRecording_nf session_def)

lemma session_openSession2:
  "session (snd (openSession2 context s)) =
     (Some (nextId s), Some (nextId s + 1), True, liveStreams s @ [nextId s], opens s + 1, closes s,
      connectedSources s @ [nextId s + 1])"
  by (simp add: openSession2_def Let_def getUserMedia_def connectSource_def session_def)



lemma start2_granted:
  "selectedDeviceOf r \<noteq> [] \<Longrightarrow>
   startRecording r (Inr u) a s =
     draw2 r (fst (openSession2 (nextId (stopRecording r s))
                     ((stopRecording r s)\<lparr>nextId := nextId (stopRecording r s) + 1\<rparr>))) a
       (snd (openSession2 (nextId (stopRecording r s))
               ((stopRecording r s)\<lparr>nextId := nextId (stopRecording r s) + 1\<rparr>)))"
  by (simp add: startRecording_def startRecording_resume_def Let_def case_prod_beta)

lemma silence_time: "byteData1 Line \<lparr>capDataArray = replicate 1024 0, capBufferLength = 1024,
            capGeometry = g, capRender = ()\<rparr> silence = replicate 1024 128"
  by (simp add: byteData1_def getByteData_def silence_def)

subsection \<open>What a frame reads, draws and asks for\<close>

lemma draw_reads: "reads (fst (draw e a s)) = reads s @ [asked1 (visualizationTypeRef s)]"
  by (simp add: draw_nf)

lemma draw_frames:
  "frames (fst (draw e a s))
     = frames s @ [(nextId s, e\<lparr>capDataArray := byteData1 (visualizationTypeRef s) e a\<rparr>)]"
  by (simp add: draw_nf)

lemma draw_canvas:
  "canvasRef s = Some c \<Longrightarrow>
   canvasRef (fst (draw e a s)) =
     Some (c\<lparr>painted := painted c
               @ background1 (width (capGeometry e)) (height (capGeometry e))
               @ fst (dispatch1 (visualizationTypeRef s) (byteData1 (visualizationTypeRef s) e a)
                        (capBufferLength e) (width (capGeometry e)) (height (capGeometry e)))\<rparr>)"
  by (simp add: draw_nf)

lemma draw_thrown:
  "snd (draw e a s) =
     snd (dispatch1 (visualizationTypeRef s) (byteData1 (visualizationTypeRef s) e a)
            (capBufferLength e) (width (capGeometry e)) (height (capGeometry e)))"
  by (simp add: draw_nf)

lemma step1_frame:
  "map_of (frames s) h = Some e \<Longrightarrow>
   step1 (AnimationFrame h a) s =
     (fst (draw e a (cancelAnimationFrame h s)))
       \<lparr>uncaught := uncaught (fst (draw e a (cancelAnimationFrame h s)))
                      @ (case snd (draw e a (cancelAnimationFrame h s)) of None \<Rightarrow> [] | Some err \<Rightarrow> [err])\<rparr>"
  by (cases "snd (draw e a (cancelAnimationFrame h s))")
     (simp_all add: step1_def case_prod_beta)

lemma drawFrame_reads:
  "isRecordingOf (capRender e) \<Longrightarrow> reads (drawFrame e a s) = reads s @ [FrequencyData]"
proof (cases "snd (dispatch2 (visualizationTypeOf (capRender e))
          (getByteData (capDataArray e) (frequencyData a)) (capGeometry e))")
  case None
  assume "isRecordingOf (capRender e)"
  then show ?thesis using None by (simp add: drawFrame_ok)
next
  case (Some err)
  assume r: "isRecordingOf (capRender e)"
  show ?thesis
    unfolding drawFrame_thrown[OF r Some]
    by (simp add: stopRecording_nf) (simp add: logConsole_def paint_def)
qed

lemma visualize_frames:
  "canvasRef s = Some c \<Longrightarrow> context2d c \<Longrightarrow> analyserRef s = Some an \<Longrightarrow>
   frames (fst (visualize a s)) =
     frames s @ [(nextId s,
       \<lparr>capDataArray = byteData1 (visualizationTypeRef s)
                          \<lparr>capDataArray = replicate (frequencyBinCount an) 0,
                           capBufferLength = frequencyBinCount an,
                           capGeometry = \<lparr>width = width c, height = height c\<rparr>, capRender = ()\<rparr> a,
        capBufferLength = frequencyBinCount an,
        capGeometry = \<lparr>width = width c, height = height c\<rparr>, capRender = ()\<rparr>)]"
  by (simp add: visualize_nf draw_frames)

lemma drawFrame_frames:
  "isRecordingOf (capRender e) \<Longrightarrow>
   snd (dispatch2 (visualizationTypeOf (capRender e))
          (getByteData (capDataArray e) (frequencyData a)) (capGeometry e)) = None \<Longrightarrow>
   frames (drawFrame e a s)
     = frames s @ [(nextId s, e\<lparr>capDataArray := getByteData (capDataArray e) (frequencyData a)\<rparr>)]"
  by (simp add: drawFrame_ok)

lemma drawFrame_canvas:
  "isRecordingOf (capRender e) \<Longrightarrow>
   snd (dispatch2 (visualizationTypeOf (capRender e))
          (getByteData (capDataArray e) (frequencyData a)) (capGeometry e)) = None \<Longrightarrow>
   canvasRef s = Some c \<Longrightarrow>
   canvasRef (drawFrame e a s)
     = Some (c\<lparr>painted := painted c @ background2 c
                 @ fst (dispatch2 (visualizationTypeOf (capRender e))
                          (getByteData (capDataArray e) (frequencyData a)) (capGeometry e))\<rparr>)"
  by (simp add: drawFrame_ok)

lemma draw2_frames:
  "canvasRef s = Some c \<Longrightarrow> context2d c \<Longrightarrow> isRecordingOf r \<Longrightarrow>
   snd (dispatch2 (visualizationTypeOf r)
          (getByteData (replicate (frequencyBinCount an) 0) (frequencyData a))
          (boundingClientRect c)) = None \<Longrightarrow>
   frames (draw2 r an a s) =
     frames s @ [(nextId s,
       \<lparr>capDataArray = getByteData (replicate (frequencyBinCount an) 0) (frequencyData a),
        capBufferLength = frequencyBinCount an,
        capGeometry = boundingClientRect c, capRender = r\<rparr>)]"
  by (simp add: draw2_nf drawFrame_frames)

lemma step1_style:
  "mounted s \<Longrightarrow>
   step1 (SetVisualizationType v) s = s\<lparr>visualizationType := v, visualizationTypeRef := v\<rparr>"
  by (simp add: step1_def)

text \<open>
  The first version re-reads the style in every frame. A frame asks the analyser for the
  frequency data when the style the ref holds at that moment is the bar style and for the
  time-domain data otherwise, and paints the background and the transform of that style.
  A change of style writes the state and the ref and nothing else, and the frame that
  runs next reads and dispatches by the new style and asks for the frame after it.
\<close>

lemma first_version_follows_style:
  "reads (fst (draw e a s)) = reads s @ [asked1 (visualizationTypeRef s)]
   \<and> asked1 Bar = FrequencyData \<and> asked1 Line = TimeDomainData \<and> asked1 Circle = TimeDomainData
   \<and> byteData1 Bar e a = getByteData (capDataArray e) (frequencyData a)
   \<and> byteData1 Line e a = getByteData (capDataArray e) (timeDomainData a)
   \<and> byteData1 Circle e a = getByteData (capDataArray e) (timeDomainData a)
   \<and> (canvasRef s = Some c \<longrightarrow>
        canvasRef (fst (draw e a s)) =
          Some (c\<lparr>painted := painted c
                    @ background1 (width (capGeometry e)) (height (capGeometry e))
                    @ fst (dispatch1 (visualizationTypeRef s) (byteData1 (visualizationTypeRef s) e a)
                             (capBufferLength e) (width (capGeometry e)) (height (capGeometry e)))\<rparr>))
   \<and> dispatch1 Line d n w h = (drawLine d n w h, None)
   \<and> dispatch1 Circle d n w h = drawCircle1 d n w h
   \<and> dispatch1 Bar d n w h = (drawBars1 d n w h, None)
   \<and> (mounted s \<longrightarrow>
        step1 (SetVisualizationType v) s = s\<lparr>visualizationType := v, visualizationTypeRef := v\<rparr>)
   \<and> (mounted s \<and> map_of (frames s) k = Some e \<longrightarrow>
        reads (step1 (AnimationFrame k a) (step1 (SetVisualizationType v) s)) = reads s @ [asked1 v]
        \<and> frames (step1 (AnimationFrame k a) (step1 (SetVisualizationType v) s))
            = filter (\<lambda>f. fst f \<noteq> k) (frames s) @ [(nextId s, e\<lparr>capDataArray := byteData1 v e a\<rparr>)]
        \<and> session (step1 (AnimationFrame k a) (step1 (SetVisualizationType v) s)) = session s)"
proof -
  have ev: "mounted s \<and> map_of (frames s) k = Some e \<longrightarrow>
        reads (step1 (AnimationFrame k a) (step1 (SetVisualizationType v) s)) = reads s @ [asked1 v]
        \<and> frames (step1 (AnimationFrame k a) (step1 (SetVisualizationType v) s))
            = filter (\<lambda>f. fst f \<noteq> k) (frames s) @ [(nextId s, e\<lparr>capDataArray := byteData1 v e a\<rparr>)]
        \<and> session (step1 (AnimationFrame k a) (step1 (SetVisualizationType v) s)) = session s"
  proof
    assume mm: "mounted s \<and> map_of (frames s) k = Some e"
    then have mo: "mounted s" and m: "map_of (frames s) k = Some e" by simp_all
    let ?s = "s\<lparr>visualizationType := v, visualizationTypeRef := v\<rparr>"
    have m': "map_of (frames ?s) k = Some e" using m by simp
    have se: "session (fst (draw e a (cancelAnimationFrame k ?s))) = session s"
      unfolding draw_session by (simp add: session_def cancelAnimationFrame_def)
    show "reads (step1 (AnimationFrame k a) (step1 (SetVisualizationType v) s)) = reads s @ [asked1 v]
        \<and> frames (step1 (AnimationFrame k a) (step1 (SetVisualizationType v) s))
            = filter (\<lambda>f. fst f \<noteq> k) (frames s) @ [(nextId s, e\<lparr>capDataArray := byteData1 v e a\<rparr>)]
        \<and> session (step1 (AnimationFrame k a) (step1 (SetVisualizationType v) s)) = session s"
      unfolding step1_style[OF mo] step1_frame[OF m']
      using se by (simp add: draw_reads draw_frames session_def, simp add: cancelAnimationFrame_def)
  qed
  have d: "dispatch1 Line d n w h = (drawLine d n w h, None)
       \<and> dispatch1 Circle d n w h = drawCircle1 d n w h
       \<and> dispatch1 Bar d n w h = (drawBars1 d n w h, None)"
    by (simp add: dispatch1_def)
  have b: "asked1 Bar = FrequencyData \<and> asked1 Line = TimeDomainData \<and> asked1 Circle = TimeDomainData
   \<and> byteData1 Bar e a = getByteData (capDataArray e) (frequencyData a)
   \<and> byteData1 Line e a = getByteData (capDataArray e) (timeDomainData a)
   \<and> byteData1 Circle e a = getByteData (capDataArray e) (timeDomainData a)"
    by (simp add: asked1_def byteData1_def)
  have st: "mounted s \<longrightarrow>
        step1 (SetVisualizationType v) s = s\<lparr>visualizationType := v, visualizationTypeRef := v\<rparr>"
    by (simp add: step1_style)
  from draw_reads[of e a s] draw_canvas[of s c e a] st ev d b
  show ?thesis by blast
qed

subsection \<open>A rejected start\<close>

lemma catchStart2_nf:
  "catchStart2 r err s =
     stopRecording r (s\<lparr>console := console s @ [''Error starting recording:''],
                        debugInfo := ErrorStartingRecording (errorMessage err)\<rparr>)"
  by (simp add: catchStart2_def logConsole_def)



subsection \<open>A transform that throws\<close>

lemma dispatch2_thrown:
  "(snd (dispatch2 v d rect) = Some err)
     = (v = Circle2 \<and> baseRadius2 rect < 0 \<and> err = Error ''IndexSizeError'')"
  by (cases v) (auto simp: dispatch2_def drawCircle2_def Let_def)

lemma dispatch1_thrown:
  "(snd (dispatch1 v d n w h) = Some err)
     = (v = Circle \<and> min w h / 4 < 0 \<and> err = Error ''IndexSizeError'')"
  by (cases v) (auto simp: dispatch1_def drawCircle1_def Let_def)

text \<open>
  On a geometry without a negative dimension no transform throws: the one call that can
  throw is \<^verbatim>\<open>arc\<close> with a negative radius, and the base radius of either radial transform is
  a fixed share of the smaller dimension.
\<close>

lemma no_transform_throws:
  "0 \<le> w \<Longrightarrow> 0 \<le> h \<Longrightarrow> snd (dispatch1 v d n w h) = None"
  "0 \<le> width rect \<Longrightarrow> 0 \<le> height rect \<Longrightarrow> snd (dispatch2 v2 d rect) = None"
proof -
  assume "0 \<le> w" "0 \<le> h"
  then have "\<not> min w h / 4 < 0" by simp
  then have "\<forall>err. snd (dispatch1 v d n w h) \<noteq> Some err" by (simp add: dispatch1_thrown)
  then show "snd (dispatch1 v d n w h) = None" by (cases "snd (dispatch1 v d n w h)") auto
next
  assume "0 \<le> width rect" "0 \<le> height rect"
  then have "\<not> baseRadius2 rect < 0" by (simp add: baseRadius2_def not_less Let_def)
  then have "\<forall>err. snd (dispatch2 v2 d rect) \<noteq> Some err" by (simp add: dispatch2_thrown)
  then show "snd (dispatch2 v2 d rect) = None" by (cases "snd (dispatch2 v2 d rect)") auto
qed

subsection \<open>A start in two steps\<close>

text \<open>
  A click that starts, followed at once by its \<^verbatim>\<open>getUserMedia\<close> settling, is the start from
  call to return.
\<close>

lemma start1_in_two_steps:
  assumes "mounted s" and "\<not> isRecording s" and "selectedMicrophone s \<noteq> []"
  shows "step1 (StreamSettled granted a) (step1 ClickButton s)
       = startVisualization (selectedMicrophone s) granted a s"
proof -
  have p: "pendingStarts s = pendingStarts (ensureAudioContext s)"
    by (cases "audioContextRef s") (simp_all add: ensureAudioContext_def)
  have "step1 ClickButton s = (ensureAudioContext s)\<lparr>pendingStarts := pendingStarts s + 1\<rparr>"
    using assms
    by (simp add: step1_def handleToggleRecording_def startVisualization_await_def)
  then have "step1 (StreamSettled granted a) (step1 ClickButton s)
      = startVisualization_resume granted a ((ensureAudioContext s)\<lparr>pendingStarts := pendingStarts s\<rparr>)"
    by (simp add: step1_def)
  also have "\<dots> = startVisualization_resume granted a (ensureAudioContext s)"
    by (simp add: p)
  finally show ?thesis using assms(3) by (simp add: startVisualization_def)
qed

lemma start2_in_two_steps:
  assumes "mounted s" and "\<not> isRecording s" and "selectedDevice s \<noteq> []"
  shows "step2 (StreamSettled2 (length (pendingRecordings s)) granted a) (step2 ClickButton2 s)
       = startRecording (render s) granted a s"
proof -
  let ?r = "render s"
  let ?s1 = "stopRecording ?r s"
  have sel: "selectedDeviceOf ?r \<noteq> []" using assms(3) by (simp add: render_def)
  have p: "pendingRecordings ?s1 = pendingRecordings s" by (simp add: stopRecording_nf)
  have c: "step2 ClickButton2 s
      = ?s1\<lparr>nextId := nextId ?s1 + 1,
             pendingRecordings := pendingRecordings s @ [(?r, nextId ?s1)]\<rparr>"
    using assms(1,2) sel by (simp add: step2_def startRecording_await_def Let_def p)
  have "step2 (StreamSettled2 (length (pendingRecordings s)) granted a) (step2 ClickButton2 s)
      = startRecording_resume ?r (nextId ?s1) granted a
          (?s1\<lparr>nextId := nextId ?s1 + 1, pendingRecordings := pendingRecordings s\<rparr>)"
    unfolding c by (simp add: step2_def)
  also have "?s1\<lparr>nextId := nextId ?s1 + 1, pendingRecordings := pendingRecordings s\<rparr>
           = ?s1\<lparr>nextId := nextId ?s1 + 1\<rparr>"
    by (simp add: p[symmetric])
  finally show ?thesis using sel by (simp add: startRecording_def Let_def)
qed

subsection \<open>The states of the page are reached\<close>

lemma run1_snoc: "run1 (evs @ [ev]) s = step1 ev (run1 evs s)"
  by (simp add: run1_def)

lemma run2_snoc: "run2 (evs @ [ev]) s = step2 ev (run2 evs s)"
  by (simp add: run2_def)

lemma idle1_reached:
  "run1 [StreamForDevices (Inr ()), DevicesEnumerated (Inr [''mic-1''])] (init1 pageCanvas) = idle1"
  by (simp add: run1_def step1_def init1_def getMicrophones_stream_def getMicrophones_devices_def
      getUserMedia_def idle1_def)

lemma step1_click_idle1:
  "step1 ClickButton idle1 = idle1\<lparr>nextId := 3, audioContextRef := Some 2, pendingStarts := 1\<rparr>"
  by (simp add: step1_def idle1_def handleToggleRecording_def startVisualization_await_def
      ensureAudioContext_def)

lemma resume1_waiting:
  "startVisualization_resume (Inr ()) silence
     (idle1\<lparr>nextId := 3, audioContextRef := Some 2, pendingStarts := n\<rparr>)
     = recording1\<lparr>pendingStarts := n\<rparr>"
proof -
  let ?s0 = "idle1\<lparr>nextId := 3, audioContextRef := Some 2, pendingStarts := n\<rparr>"
  let ?an = "\<lparr>fftSize = 2048, minDecibels = - 100, maxDecibels = - 30,
                             smoothingTimeConstant = 0.8\<rparr>"
  let ?s5 = "idle1\<lparr>streamRef := Some 3, sourceRef := Some 4, isRecording := True,
               liveStreams := [1, 3], opens := 2, connectedSources := [4], nextId := 5,
               audioContextRef := Some 2, analyserRef := Some ?an, pendingStarts := n\<rparr>"
  have d: "openSession1 ?s0 = ?s5"
    by (simp add: openSession1_def getUserMedia_def connectSource_def idle1_def)
  have c5: "canvasRef ?s5 = Some pageCanvas" by (simp add: idle1_def)
  have p5: "context2d pageCanvas" by (simp add: pageCanvas_def)
  have a5: "analyserRef ?s5 = Some ?an" by simp
  have e: "visualize silence ?s5 = (recording1\<lparr>pendingStarts := n\<rparr>, None)"
    unfolding visualize_nf[OF c5 p5 a5] draw_nf
    by (simp add: frequencyBinCount_def idle1_def pageCanvas_def silence_time dispatch1_def asked1_def
        recording1_def flatLineCanvas_def loop1_def)
  show ?thesis
    by (simp only: startVisualization_resume_def sum.case d e) (simp add: catchStart1_def)
qed

lemma recording1_reached:
  "run1 [StreamForDevices (Inr ()), DevicesEnumerated (Inr [''mic-1'']), ClickButton,
         StreamSettled (Inr ()) silence] (init1 pageCanvas) = recording1"
proof -
  have "run1 [StreamForDevices (Inr ()), DevicesEnumerated (Inr [''mic-1'']), ClickButton,
         StreamSettled (Inr ()) silence] (init1 pageCanvas)
      = step1 (StreamSettled (Inr ()) silence) (step1 ClickButton
          (run1 [StreamForDevices (Inr ()), DevicesEnumerated (Inr [''mic-1''])] (init1 pageCanvas)))"
    by (simp add: run1_def)
  also have "\<dots> = step1 (StreamSettled (Inr ()) silence)
                     (idle1\<lparr>nextId := 3, audioContextRef := Some 2, pendingStarts := 1\<rparr>)"
    by (simp only: idle1_reached step1_click_idle1)
  also have "\<dots> = startVisualization_resume (Inr ()) silence
                     (idle1\<lparr>nextId := 3, audioContextRef := Some 2, pendingStarts := 0\<rparr>)"
    by (simp add: step1_def idle1_def)
  also have "\<dots> = recording1\<lparr>pendingStarts := 0\<rparr>" by (rule resume1_waiting)
  also have "\<dots> = recording1" by (simp add: recording1_def)
  finally show ?thesis .
qed

lemma idle2_reached:
  "run2 [StreamForDevices2 (Inr ()), DevicesEnumerated2 (Inr [''mic-1''])] (init2 pageCanvas) = idle2"
  by (simp add: run2_def step2_def init2_def loadAudioDevices_stream_def
      loadAudioDevices_devices_def getUserMedia_def stopTracks_def idle2_def)

lemma setDimension_800: "setDimension 300 800 = 800" and setDimension_400: "setDimension 150 400 = 400"
  by (simp_all add: setDimension_def ToUint32_def)

lemma render_idle2: "render idle2 = pageRender"
  by (simp add: render_def idle2_def pageRender_def)

lemma stop_idle2:
  "stopRecording pageRender idle2
     = idle2\<lparr>canvasRef := Some (pageCanvas\<lparr>painted := background2 pageCanvas\<rparr>),
             debugInfo := RecordingStopped\<rparr>"
  by (simp add: stopRecording_nf idle2_def truthy_def clearedFrame_def pageCanvas_def pageRender_def)

lemma step2_click_idle2:
  "step2 ClickButton2 idle2
     = idle2\<lparr>canvasRef := Some (pageCanvas\<lparr>painted := background2 pageCanvas\<rparr>),
             nextId := 3, debugInfo := RecordingStopped, pendingRecordings := [(pageRender, 2)]\<rparr>"
proof -
  have "step2 ClickButton2 idle2 = startRecording_await pageRender idle2"
    by (simp add: step2_def render_idle2) (simp add: idle2_def)
  also have "\<dots> = (stopRecording pageRender idle2)
       \<lparr>nextId := nextId (stopRecording pageRender idle2) + 1,
        pendingRecordings := pendingRecordings (stopRecording pageRender idle2) @ [(pageRender, nextId (stopRecording pageRender idle2))]\<rparr>"
    by (simp add: startRecording_await_def Let_def) (simp add: pageRender_def)
  also have "\<dots> = idle2\<lparr>canvasRef := Some (pageCanvas\<lparr>painted := background2 pageCanvas\<rparr>),
             nextId := 3, debugInfo := RecordingStopped, pendingRecordings := [(pageRender, 2)]\<rparr>"
    unfolding stop_idle2 by (simp add: idle2_def)
  finally show ?thesis .
qed

lemma resume2_idle2:
  "startRecording_resume pageRender 2 (Inr ()) silence
     (idle2\<lparr>canvasRef := Some (pageCanvas\<lparr>painted := background2 pageCanvas\<rparr>),
             nextId := 3, debugInfo := RecordingStopped\<rparr>) = recording2"
proof -
  let ?an = "\<lparr>fftSize = 2048, minDecibels = - 90, maxDecibels = - 10, smoothingTimeConstant = 0.85\<rparr>"
  let ?c1 = "pageCanvas\<lparr>painted := background2 pageCanvas\<rparr>"
  let ?s2 = "idle2\<lparr>canvasRef := Some ?c1, nextId := 3, debugInfo := RecordingStopped\<rparr>"
  let ?s5 = "idle2\<lparr>canvasRef := Some ?c1, streamRef := Some 3, sourceRef := Some 4, isRecording := True,
               liveStreams := [3], opens := 2, connectedSources := [4], nextId := 5,
               audioContext := Some 2, analyserState := Some ?an, debugInfo := RecordingStarted\<rparr>"
  have d: "openSession2 2 ?s2 = (?an, ?s5)"
    by (simp add: openSession2_def Let_def getUserMedia_def connectSource_def idle2_def)
  have c5: "canvasRef ?s5 = Some ?c1" by simp
  have p5: "context2d ?c1" by (simp add: pageCanvas_def)
  have e: "draw2 pageRender ?an silence ?s5 = recording2"
    unfolding draw2_nf[OF c5 p5]
    by (simp add: drawFrame_idle pageRender_def)
       (simp add: truthy_def idle2_def pageCanvas_def setDimension_800 setDimension_400 recording2_def)
  show ?thesis
    by (simp only: startRecording_resume_def sum.case d prod.case e)
qed

lemma recording2_reached:
  "run2 [StreamForDevices2 (Inr ()), DevicesEnumerated2 (Inr [''mic-1'']), ClickButton2,
         StreamSettled2 0 (Inr ()) silence] (init2 pageCanvas) = recording2"
proof -
  let ?w = "idle2\<lparr>canvasRef := Some (pageCanvas\<lparr>painted := background2 pageCanvas\<rparr>),
             nextId := 3, debugInfo := RecordingStopped, pendingRecordings := [(pageRender, 2)]\<rparr>"
  have "run2 [StreamForDevices2 (Inr ()), DevicesEnumerated2 (Inr [''mic-1'']), ClickButton2,
         StreamSettled2 0 (Inr ()) silence] (init2 pageCanvas)
      = step2 (StreamSettled2 0 (Inr ()) silence) (step2 ClickButton2
          (run2 [StreamForDevices2 (Inr ()), DevicesEnumerated2 (Inr [''mic-1''])] (init2 pageCanvas)))"
    by (simp add: run2_def)
  also have "\<dots> = step2 (StreamSettled2 0 (Inr ()) silence) ?w"
    by (simp only: idle2_reached step2_click_idle2)
  also have "\<dots> = startRecording_resume pageRender 2 (Inr ()) silence
     (idle2\<lparr>canvasRef := Some (pageCanvas\<lparr>painted := background2 pageCanvas\<rparr>),
             nextId := 3, debugInfo := RecordingStopped\<rparr>)"
    by (simp add: step2_def) (simp add: idle2_def)
  finally show ?thesis by (simp only: resume2_idle2)
qed

subsection \<open>Starting the second version\<close>

lemma openSession2_nf:
  "openSession2 ctx s =
     (\<lparr>fftSize = 2048, minDecibels = - 90, maxDecibels = - 10, smoothingTimeConstant = 0.85\<rparr>,
      s\<lparr>streamRef := Some (nextId s), sourceRef := Some (nextId s + 1), isRecording := True,
        liveStreams := liveStreams s @ [nextId s], opens := opens s + 1,
        connectedSources := connectedSources s @ [nextId s + 1], nextId := nextId s + 2,
        audioContext := Some ctx,
        analyserState := Some \<lparr>fftSize = 2048, minDecibels = - 90, maxDecibels = - 10,
                                 smoothingTimeConstant = 0.85\<rparr>,
        debugInfo := RecordingStarted\<rparr>)"
  by (simp add: openSession2_def Let_def getUserMedia_def connectSource_def)

lemma resume2_granted_stale:
  assumes "canvasRef s = Some c" and "context2d c" and "\<not> isRecordingOf r"
  shows "startRecording_resume r ctx (Inr u) a s =
     s\<lparr>canvasRef := Some (c\<lparr>width := setDimension 300 (width (boundingClientRect c)),
                              height := setDimension 150 (height (boundingClientRect c)),
                              painted := []\<rparr>),
       streamRef := Some (nextId s), sourceRef := Some (nextId s + 1), isRecording := True,
       liveStreams := liveStreams s @ [nextId s], opens := opens s + 1,
       connectedSources := connectedSources s @ [nextId s + 1],
       frames := (if truthy (animationFrameId s)
                  then filter (\<lambda>f. fst f \<noteq> the (animationFrameId s)) (frames s) else frames s),
       nextId := nextId s + 2,
       console := console s @ [''Recording stopped, cleaning up animation frame''],
       audioContext := Some ctx,
       analyserState := Some \<lparr>fftSize = 2048, minDecibels = - 90, maxDecibels = - 10,
                                smoothingTimeConstant = 0.85\<rparr>,
       debugInfo := RecordingStarted,
       animationFrameId := (if truthy (animationFrameId s) then None else animationFrameId s)\<rparr>"
  using assms
  by (cases "truthy (animationFrameId s)")
     (simp_all add: startRecording_resume_def openSession2_nf draw2_nf[where c = c] drawFrame_idle)

lemma resume2_granted_missing:
  assumes "canvasRef s = None \<or> (\<exists>c. canvasRef s = Some c \<and> \<not> context2d c)"
  shows "startRecording_resume r ctx (Inr u) a s =
     s\<lparr>streamRef := Some (nextId s), sourceRef := Some (nextId s + 1), isRecording := True,
       liveStreams := liveStreams s @ [nextId s], opens := opens s + 1,
       connectedSources := connectedSources s @ [nextId s + 1],
       nextId := nextId s + 2,
       console := console s @ [''Missing required elements:''],
       audioContext := Some ctx,
       analyserState := Some \<lparr>fftSize = 2048, minDecibels = - 90, maxDecibels = - 10,
                                smoothingTimeConstant = 0.85\<rparr>,
       debugInfo := CannotDraw\<rparr>"
proof -
  have m: "canvasRef (snd (openSession2 ctx s)) = None
     \<or> (\<exists>c. canvasRef (snd (openSession2 ctx s)) = Some c \<and> \<not> context2d c)"
    using assms by (simp add: openSession2_nf)
  show ?thesis
    by (simp add: startRecording_resume_def case_prod_beta draw2_missing[OF m])
       (simp add: openSession2_nf)
qed

lemma resume2_rejected:
  "startRecording_resume r ctx (Inl err) a s =
     stopRecording r (s\<lparr>console := console s @ [''Error starting recording:''],
                        debugInfo := ErrorStartingRecording (errorMessage err)\<rparr>)"
  by (simp add: startRecording_resume_def catchStart2_nf)

subsection \<open>The frame loop of the second version never runs\<close>

lemma stale2_stop: "stale2 s \<Longrightarrow> stale2 (stopRecording r s)"
  by (simp add: stale2_def stopRecording_nf truthy_def)

lemma stale2_resume:
  assumes "stale2 s" and "\<not> isRecordingOf r"
  shows "stale2 (startRecording_resume r ctx granted a s)"
proof (cases granted)
  case (Inl err)
  have "stale2 (s\<lparr>console := console s @ [''Error starting recording:''],
                        debugInfo := ErrorStartingRecording (errorMessage err)\<rparr>)"
    using assms(1) by (simp add: stale2_def)
  then show ?thesis unfolding Inl resume2_rejected by (rule stale2_stop)
next
  case (Inr u)
  show ?thesis
  proof (cases "canvasRef s")
    case None
    then have "canvasRef s = None \<or> (\<exists>c. canvasRef s = Some c \<and> \<not> context2d c)" by simp
    then show ?thesis using assms(1) unfolding Inr
      by (simp add: resume2_granted_missing stale2_def)
  next
    case (Some c)
    show ?thesis
    proof (cases "context2d c")
      case True
      show ?thesis using assms(1) unfolding Inr resume2_granted_stale[OF Some True assms(2)]
        by (simp add: stale2_def truthy_def)
    next
      case False
      with Some have "canvasRef s = None \<or> (\<exists>c. canvasRef s = Some c \<and> \<not> context2d c)" by simp
      then show ?thesis using assms(1) unfolding Inr
        by (simp add: resume2_granted_missing stale2_def)
    qed
  qed
qed

lemma stale2_await:
  assumes "stale2 s" and "\<not> isRecordingOf r"
  shows "stale2 (startRecording_await r s)"
proof (cases "selectedDeviceOf r = []")
  case True
  then show ?thesis using assms by (simp add: startRecording_await_def stale2_def)
next
  case False
  have "stale2 (stopRecording r s)" using assms(1) by (rule stale2_stop)
  then show ?thesis using False assms(2)
    by (simp add: startRecording_await_def Let_def stale2_def)
qed

lemma stale2_step2: "stale2 s \<Longrightarrow> stale2 (step2 ev s)"
proof (cases ev)
  case (StreamForDevices2 granted)
  assume "stale2 s"
  then show ?thesis
    by (cases granted)
       (simp_all add: StreamForDevices2 step2_def loadAudioDevices_stream_def catchLoad2_def
          logConsole_def getUserMedia_def stopTracks_def stale2_def Let_def)
next
  case (DevicesEnumerated2 enumerated)
  assume "stale2 s"
  then show ?thesis
    by (cases enumerated)
       (simp_all add: DevicesEnumerated2 step2_def loadAudioDevices_devices_def catchLoad2_def
          logConsole_def stale2_def Let_def)
next
  case (SelectDevice d)
  assume "stale2 s"
  then show ?thesis by (simp add: SelectDevice step2_def stale2_def)
next
  case (SetVisualizationType2 v)
  assume "stale2 s"
  then show ?thesis by (simp add: SetVisualizationType2 step2_def stale2_def)
next
  case ClickButton2
  assume inv: "stale2 s"
  show ?thesis
  proof (cases "mounted s")
    case False
    then show ?thesis using inv by (simp add: ClickButton2 step2_def)
  next
    case True
    show ?thesis
    proof (cases "isRecording s")
      case rec: True
      then show ?thesis using inv True by (simp add: ClickButton2 step2_def stale2_stop)
    next
      case rec: False
      then have "\<not> isRecordingOf (render s)" by (simp add: render_def)
      then show ?thesis using inv True rec by (simp add: ClickButton2 step2_def stale2_await)
    qed
  qed
next
  case (StreamSettled2 k granted a)
  assume inv: "stale2 s"
  show ?thesis
  proof (cases "k < length (pendingRecordings s)")
    case False
    then show ?thesis using inv by (simp add: StreamSettled2 step2_def)
  next
    case True
    obtain r ctx where p: "pendingRecordings s ! k = (r, ctx)" by (cases "pendingRecordings s ! k")
    have all: "list_all (\<lambda>p. isRecordingOf (fst p) = False) (pendingRecordings s)"
      using inv by (simp add: stale2_def)
    then have r: "\<not> isRecordingOf r"
      using True p by (auto simp: list_all_length)
    have rest: "list_all (\<lambda>p. isRecordingOf (fst p) = False)
        (take k (pendingRecordings s) @ drop (Suc k) (pendingRecordings s))"
      using all by (auto simp: list_all_iff dest: in_set_takeD in_set_dropD)
    have "stale2 (s\<lparr>pendingRecordings := take k (pendingRecordings s)
                                                @ drop (Suc k) (pendingRecordings s)\<rparr>)"
      using inv rest by (simp add: stale2_def)
    then show ?thesis using True p r
      by (simp add: StreamSettled2 step2_def stale2_resume)
  qed
next
  case (AnimationFrame2 h a)
  assume "stale2 s"
  then show ?thesis by (simp add: AnimationFrame2 step2_def stale2_def)
next
  case (ResizeCanvas2 rect)
  assume "stale2 s"
  then show ?thesis by (simp add: ResizeCanvas2 step2_def stale2_def)
next
  case Unmount2
  assume inv: "stale2 s"
  then have "stale2 (s\<lparr>canvasRef := None, mounted := False\<rparr>)" by (simp add: stale2_def)
  then show ?thesis using inv by (simp add: Unmount2 step2_def stale2_stop)
qed

lemma stale2_fold: "stale2 s \<Longrightarrow> stale2 (fold step2 evs s)"
  by (induction evs arbitrary: s) (simp_all add: stale2_step2)

lemma stale2_run2: "stale2 (run2 evs (init2 c))"
  unfolding run2_def by (rule stale2_fold) (simp add: stale2_def init2_def)

subsection \<open>Two clicks before the first stream is granted\<close>

lemma resume1_recording:
  "startVisualization_resume (Inr ()) silence recording1 = overlapped1"
proof -
  let ?an = "\<lparr>fftSize = 2048, minDecibels = - 100, maxDecibels = - 30,
                             smoothingTimeConstant = 0.8\<rparr>"
  let ?s5 = "recording1\<lparr>streamRef := Some 6, sourceRef := Some 7,
               liveStreams := [1, 3, 6], opens := 3, connectedSources := [4, 7], nextId := 8\<rparr>"
  have d: "openSession1 recording1 = ?s5"
    by (simp add: openSession1_def getUserMedia_def connectSource_def recording1_def)
  have c5: "canvasRef ?s5 = Some flatLineCanvas" by (simp add: recording1_def)
  have p5: "context2d flatLineCanvas" by (simp add: flatLineCanvas_def pageCanvas_def)
  have a5: "analyserRef ?s5 = Some ?an" by (simp add: recording1_def)
  have w: "width flatLineCanvas = 800" "height flatLineCanvas = 400"
    by (simp_all add: flatLineCanvas_def pageCanvas_def)
  have e: "visualize silence ?s5 = (overlapped1, None)"
    unfolding visualize_nf[OF c5 p5 a5] draw_nf
    by (simp add: frequencyBinCount_def w silence_time dispatch1_def asked1_def
        recording1_def overlapped1_def loop1_def)
  show ?thesis
    by (simp only: startVisualization_resume_def sum.case d e) (simp add: catchStart1_def)
qed

lemma overlapped1_reached: "run1 twoStarts1 (init1 pageCanvas) = overlapped1"
proof -
  have c1: "step1 ClickButton (idle1\<lparr>nextId := 3, audioContextRef := Some 2, pendingStarts := 1\<rparr>)
          = idle1\<lparr>nextId := 3, audioContextRef := Some 2, pendingStarts := 2\<rparr>"
    by (simp add: step1_def idle1_def handleToggleRecording_def startVisualization_await_def
      ensureAudioContext_def)
  have s1: "step1 (StreamSettled (Inr ()) silence)
              (idle1\<lparr>nextId := 3, audioContextRef := Some 2, pendingStarts := 2\<rparr>)
          = startVisualization_resume (Inr ()) silence
              (idle1\<lparr>nextId := 3, audioContextRef := Some 2, pendingStarts := 1\<rparr>)"
    by (simp add: step1_def idle1_def)
  have s2: "step1 (StreamSettled (Inr ()) silence) (recording1\<lparr>pendingStarts := 1\<rparr>)
          = startVisualization_resume (Inr ()) silence recording1"
    by (simp add: step1_def recording1_def)
  have "run1 twoStarts1 (init1 pageCanvas)
     = step1 (StreamSettled (Inr ()) silence) (step1 (StreamSettled (Inr ()) silence)
         (step1 ClickButton (step1 ClickButton
           (run1 [StreamForDevices (Inr ()), DevicesEnumerated (Inr [''mic-1''])] (init1 pageCanvas)))))"
    by (simp add: run1_def twoStarts1_def)
  then show ?thesis
    by (simp only: idle1_reached step1_click_idle1 c1 s1 resume1_waiting s2 resume1_recording)
qed

lemma overlapped1_stopped:
  "step1 ClickButton overlapped1
     = overlapped1\<lparr>streamRef := None, sourceRef := None, isRecording := False,
                    liveStreams := [1, 3], closes := 1, connectedSources := [4],
                    frames := [(5, loop1)]\<rparr>"
proof -
  have "step1 ClickButton overlapped1 = stopVisualization overlapped1"
    by (simp add: step1_def handleToggleRecording_def overlapped1_def recording1_def)
  also have "\<dots> = overlapped1\<lparr>streamRef := None, sourceRef := None, isRecording := False,
                    liveStreams := [1, 3], closes := 1, connectedSources := [4],
                    frames := [(5, loop1)]\<rparr>"
    by (simp add: stopVisualization_nf) (simp add: overlapped1_def recording1_def)
  finally show ?thesis .
qed

lemma waiting2_reached:
  "run2 [StreamForDevices2 (Inr ()), DevicesEnumerated2 (Inr [''mic-1'']), ClickButton2, ClickButton2]
     (init2 pageCanvas) = waiting2"
proof -
  let ?w = "idle2\<lparr>canvasRef := Some (pageCanvas\<lparr>painted := background2 pageCanvas\<rparr>),
             nextId := 3, debugInfo := RecordingStopped, pendingRecordings := [(pageRender, 2)]\<rparr>"
  have r: "render ?w = pageRender" by (simp add: render_def idle2_def pageRender_def)
  have st: "stopRecording pageRender ?w
      = ?w\<lparr>canvasRef := Some (pageCanvas\<lparr>painted := background2 pageCanvas @ background2 pageCanvas\<rparr>)\<rparr>"
    by (simp add: stopRecording_nf idle2_def truthy_def clearedFrame_def pageCanvas_def pageRender_def
        background2_def)
  have c: "step2 ClickButton2 ?w = waiting2"
  proof -
    have "step2 ClickButton2 ?w = startRecording_await pageRender ?w"
      by (simp add: step2_def r) (simp add: idle2_def)
    also have "\<dots> = (stopRecording pageRender ?w)
       \<lparr>nextId := nextId (stopRecording pageRender ?w) + 1,
        pendingRecordings := pendingRecordings (stopRecording pageRender ?w)
                             @ [(pageRender, nextId (stopRecording pageRender ?w))]\<rparr>"
      by (simp add: startRecording_await_def Let_def) (simp add: pageRender_def)
    also have "\<dots> = waiting2"
      unfolding st by (simp add: idle2_def waiting2_def)
    finally show ?thesis .
  qed
  have "run2 [StreamForDevices2 (Inr ()), DevicesEnumerated2 (Inr [''mic-1'']), ClickButton2, ClickButton2]
     (init2 pageCanvas)
     = step2 ClickButton2 (step2 ClickButton2
         (run2 [StreamForDevices2 (Inr ()), DevicesEnumerated2 (Inr [''mic-1''])] (init2 pageCanvas)))"
    by (simp add: run2_def)
  then show ?thesis by (simp only: idle2_reached step2_click_idle2 c)
qed

lemma not_recording_pageRender: "\<not> isRecordingOf pageRender"
  by (simp add: pageRender_def)

lemma overlapped2_reached: "run2 twoStarts2 (init2 pageCanvas) = overlapped2"
proof -
  let ?c = "pageCanvas\<lparr>painted := background2 pageCanvas @ background2 pageCanvas\<rparr>"
  let ?m = "recording2\<lparr>streamRef := Some 4, sourceRef := Some 5, liveStreams := [4],
                connectedSources := [5], nextId := 6, pendingRecordings := [(pageRender, 3)]\<rparr>"
  have a: "step2 (StreamSettled2 0 (Inr ()) silence) waiting2
         = startRecording_resume pageRender 2 (Inr ()) silence
             (waiting2\<lparr>pendingRecordings := [(pageRender, 3)]\<rparr>)"
    by (simp add: step2_def waiting2_def)
  have c1: "canvasRef (waiting2\<lparr>pendingRecordings := [(pageRender, 3)]\<rparr>) = Some ?c"
    by (simp add: waiting2_def)
  have p1: "context2d ?c" by (simp add: pageCanvas_def)
  have b: "startRecording_resume pageRender 2 (Inr ()) silence
             (waiting2\<lparr>pendingRecordings := [(pageRender, 3)]\<rparr>) = ?m"
    unfolding resume2_granted_stale[OF c1 p1 not_recording_pageRender]
    by (simp add: waiting2_def idle2_def recording2_def truthy_def pageCanvas_def
        setDimension_800 setDimension_400)
  have a2: "step2 (StreamSettled2 0 (Inr ()) silence) ?m
         = startRecording_resume pageRender 3 (Inr ()) silence (?m\<lparr>pendingRecordings := []\<rparr>)"
    by (simp add: step2_def recording2_def)
  have c2: "canvasRef (?m\<lparr>pendingRecordings := []\<rparr>) = Some pageCanvas"
    by (simp add: recording2_def)
  have p2: "context2d pageCanvas" by (simp add: pageCanvas_def)
  have b2: "startRecording_resume pageRender 3 (Inr ()) silence (?m\<lparr>pendingRecordings := []\<rparr>)
          = overlapped2"
    unfolding resume2_granted_stale[OF c2 p2 not_recording_pageRender]
    by (simp add: recording2_def overlapped2_def truthy_def pageCanvas_def
        setDimension_800 setDimension_400)
  have "run2 twoStarts2 (init2 pageCanvas)
     = step2 (StreamSettled2 0 (Inr ()) silence) (step2 (StreamSettled2 0 (Inr ()) silence)
         (run2 [StreamForDevices2 (Inr ()), DevicesEnumerated2 (Inr [''mic-1'']), ClickButton2, ClickButton2]
     (init2 pageCanvas)))"
    by (simp add: run2_def twoStarts2_def)
  then show ?thesis by (simp only: waiting2_reached a b a2 b2)
qed

lemma overlapped2_stopped:
  "step2 ClickButton2 overlapped2
     = overlapped2\<lparr>canvasRef := Some (pageCanvas\<lparr>painted := background2 pageCanvas\<rparr>),
                    streamRef := None, sourceRef := None, isRecording := False,
                    liveStreams := [4], closes := 2, connectedSources := [5],
                    audioContext := None, analyserState := None, debugInfo := RecordingStopped,
                    closedContexts := [3]\<rparr>"
proof -
  have "step2 ClickButton2 overlapped2 = stopRecording (render overlapped2) overlapped2"
    by (simp add: step2_def overlapped2_def recording2_def)
  also have "\<dots> = overlapped2\<lparr>canvasRef := Some (pageCanvas\<lparr>painted := background2 pageCanvas\<rparr>),
                    streamRef := None, sourceRef := None, isRecording := False,
                    liveStreams := [4], closes := 2, connectedSources := [5],
                    audioContext := None, analyserState := None, debugInfo := RecordingStopped,
                    closedContexts := [3]\<rparr>"
    by (simp add: stopRecording_nf)
       (simp add: overlapped2_def recording2_def render_def truthy_def clearedFrame_def pageCanvas_def)
  finally show ?thesis .
qed
section \<open>The controller: properties\<close>

subsection \<open>Stopping twice\<close>

text \<open>
  Claim C6, as the code has it. Stopping twice ends where stopping once does. In the first
  version the second \<^verbatim>\<open>stopVisualization\<close> changes nothing at all. In the second version a
  second \<^verbatim>\<open>stopRecording\<close> leaves the recording flag, the frame requests and the session as
  the first left them; it paints the cleared frame again and, when it belongs to a render
  that holds an audio context, calls \<^verbatim>\<open>close()\<close> on that context again; the \<^verbatim>\<open>stopRecording\<close> of
  the render that follows a stop only paints. After a stop nothing is recording, the refs
  hold no stream and no source, the stream the ref held has no live track (and counts as
  closed), the source the ref held is disconnected, and, when the only frame request is
  the one the ref holds, none is pending. Stopping while idle leaves the first version as
  it is; in the second version it leaves the recording flag, the frame requests and the
  session as they are, sets the status line and paints the cleared frame.
\<close>

theorem stop_idempotent:
  assumes "fst ` set (frames s) \<subseteq> {animationRef s} - {0}"
    and "fst ` set (frames t) \<subseteq> (case animationFrameId t of None \<Rightarrow> {} | Some h \<Rightarrow> {h} - {0})"
  shows "stopVisualization (stopVisualization s) = stopVisualization s
       \<and> isRecording (stopVisualization s) = False
       \<and> frames (stopVisualization s) = []
       \<and> streamRef (stopVisualization s) = None
       \<and> sourceRef (stopVisualization s) = None
       \<and> liveStreams (stopVisualization s)
           = (case streamRef s of None \<Rightarrow> liveStreams s | Some i \<Rightarrow> removeAll i (liveStreams s))
       \<and> closes (stopVisualization s) = closes s + (case streamRef s of None \<Rightarrow> 0 | Some i \<Rightarrow> 1)
       \<and> connectedSources (stopVisualization s)
           = (case sourceRef s of None \<Rightarrow> connectedSources s
              | Some i \<Rightarrow> removeAll i (connectedSources s))
       \<and> (isRecording s0 = False \<and> streamRef s0 = None \<and> sourceRef s0 = None \<and> frames s0 = []
            \<longrightarrow> stopVisualization s0 = s0)
       \<and> stopRecording r (stopRecording r t)
           = (paint clearedFrame (stopRecording r t))
               \<lparr>closedContexts := closedContexts (stopRecording r t)
                                  @ (case audioContextOf r of None \<Rightarrow> [] | Some c \<Rightarrow> [c])\<rparr>
       \<and> stopRecording (render (stopRecording (render t) t)) (stopRecording (render t) t)
           = paint clearedFrame (stopRecording (render t) t)
       \<and> session (stopRecording r2 (stopRecording r t)) = session (stopRecording r t)
       \<and> frames (stopRecording r2 (stopRecording r t)) = frames (stopRecording r t)
       \<and> isRecording (stopRecording r t) = False
       \<and> frames (stopRecording r t) = []
       \<and> truthy (animationFrameId (stopRecording r t)) = False
       \<and> streamRef (stopRecording r t) = None
       \<and> sourceRef (stopRecording r t) = None
       \<and> liveStreams (stopRecording r t)
           = (case streamRef t of None \<Rightarrow> liveStreams t | Some i \<Rightarrow> removeAll i (liveStreams t))
       \<and> closes (stopRecording r t) = closes t + (case streamRef t of None \<Rightarrow> 0 | Some i \<Rightarrow> 1)
       \<and> connectedSources (stopRecording r t)
           = (case sourceRef t of None \<Rightarrow> connectedSources t
              | Some i \<Rightarrow> removeAll i (connectedSources t))
       \<and> (isRecording t0 = False \<and> streamRef t0 = None \<and> sourceRef t0 = None \<and> frames t0 = []
            \<and> animationFrameId t0 = None \<and> audioContextOf r0 = None \<and> analyserState t0 = None
            \<longrightarrow> stopRecording r0 t0 = paint clearedFrame (t0\<lparr>debugInfo := RecordingStopped\<rparr>))"
proof -
  have v1: "isRecording s0 = False \<and> streamRef s0 = None \<and> sourceRef s0 = None \<and> frames s0 = []
            \<longrightarrow> stopVisualization s0 = s0"
    by (simp add: stopVisualization_idle)
  have idle2: "isRecording t0 = False \<and> streamRef t0 = None \<and> sourceRef t0 = None \<and> frames t0 = []
            \<and> animationFrameId t0 = None \<and> audioContextOf r0 = None \<and> analyserState t0 = None
            \<longrightarrow> stopRecording r0 t0 = paint clearedFrame (t0\<lparr>debugInfo := RecordingStopped\<rparr>)"
    by (simp add: stopRecording_nf paint_def truthy_def)
  have f1: "isRecording (stopVisualization s) = False" "streamRef (stopVisualization s) = None"
    "sourceRef (stopVisualization s) = None"
    "liveStreams (stopVisualization s)
           = (case streamRef s of None \<Rightarrow> liveStreams s | Some i \<Rightarrow> removeAll i (liveStreams s))"
    "closes (stopVisualization s) = closes s + (case streamRef s of None \<Rightarrow> 0 | Some i \<Rightarrow> 1)"
    "connectedSources (stopVisualization s)
           = (case sourceRef s of None \<Rightarrow> connectedSources s
              | Some i \<Rightarrow> removeAll i (connectedSources s))"
    by (simp_all add: stopVisualization_nf)
  have f2: "isRecording (stopRecording r t) = False" "streamRef (stopRecording r t) = None"
    "sourceRef (stopRecording r t) = None"
    "truthy (animationFrameId (stopRecording r t)) = False"
    "liveStreams (stopRecording r t)
           = (case streamRef t of None \<Rightarrow> liveStreams t | Some i \<Rightarrow> removeAll i (liveStreams t))"
    "closes (stopRecording r t) = closes t + (case streamRef t of None \<Rightarrow> 0 | Some i \<Rightarrow> 1)"
    by (simp_all add: stopRecording_fields)
  have f3: "connectedSources (stopRecording r t)
           = (case sourceRef t of None \<Rightarrow> connectedSources t
              | Some i \<Rightarrow> removeAll i (connectedSources t))"
    by (simp add: stopRecording_nf)
  note g1 = stopVisualization_frames[OF assms(1)]
  note g2 = stopRecording_frames[OF assms(2), of r]
  from stopVisualization_idem[of s] stopRecording_twice[of r t] stopRecording_next_render[of t]
    stopRecording_again_session[of r2 r t] v1 idle2 f1 f2 f3 g1 g2
  show ?thesis by blast
qed

theorem stop_idempotent_witness:
  "fst ` set (frames recording1) \<subseteq> {animationRef recording1} - {0}
   \<and> fst ` set (frames recording2)
       \<subseteq> (case animationFrameId recording2 of None \<Rightarrow> {} | Some h \<Rightarrow> {h} - {0})
   \<and> isRecording idle1 = False \<and> streamRef idle1 = None \<and> sourceRef idle1 = None \<and> frames idle1 = []
   \<and> isRecording idle2 = False \<and> streamRef idle2 = None \<and> sourceRef idle2 = None \<and> frames idle2 = []
   \<and> animationFrameId idle2 = None \<and> audioContextOf pageRender = None \<and> analyserState idle2 = None
   \<and> stopVisualization (stopVisualization recording1) = stopVisualization recording1
   \<and> isRecording (stopVisualization recording1) = False
   \<and> frames (stopVisualization recording1) = []
   \<and> streamRef (stopVisualization recording1) = None
   \<and> sourceRef (stopVisualization recording1) = None
   \<and> liveStreams (stopVisualization recording1) = [1]
   \<and> closes (stopVisualization recording1) = 1
   \<and> connectedSources (stopVisualization recording1) = []
   \<and> stopVisualization idle1 = idle1
   \<and> stopRecording (render recording2) (stopRecording (render recording2) recording2)
       = (paint clearedFrame (stopRecording (render recording2) recording2))
           \<lparr>closedContexts := [2, 2]\<rparr>
   \<and> stopRecording (render (stopRecording (render recording2) recording2))
        (stopRecording (render recording2) recording2)
       = paint clearedFrame (stopRecording (render recording2) recording2)
   \<and> isRecording (stopRecording (render recording2) recording2) = False
   \<and> frames (stopRecording (render recording2) recording2) = []
   \<and> streamRef (stopRecording (render recording2) recording2) = None
   \<and> sourceRef (stopRecording (render recording2) recording2) = None
   \<and> liveStreams (stopRecording (render recording2) recording2) = []
   \<and> closes (stopRecording (render recording2) recording2) = 2
   \<and> connectedSources (stopRecording (render recording2) recording2) = []
   \<and> stopRecording pageRender idle2 = paint clearedFrame (idle2\<lparr>debugInfo := RecordingStopped\<rparr>)"
proof -
  have h: "fst ` set (frames recording1) \<subseteq> {animationRef recording1} - {0}"
    "fst ` set (frames recording2)
       \<subseteq> (case animationFrameId recording2 of None \<Rightarrow> {} | Some h \<Rightarrow> {h} - {0})"
    by (simp_all add: recording1_def recording2_def)
  have i: "isRecording idle1 = False" "streamRef idle1 = None" "sourceRef idle1 = None"
    "frames idle1 = []"
    "isRecording idle2 = False" "streamRef idle2 = None" "sourceRef idle2 = None" "frames idle2 = []"
    "animationFrameId idle2 = None" "audioContextOf pageRender = None" "analyserState idle2 = None"
    by (simp_all add: idle1_def idle2_def pageRender_def)
  have k: "streamRef recording1 = Some 3" "sourceRef recording1 = Some 4"
    "liveStreams recording1 = [1, 3]" "closes recording1 = 0" "connectedSources recording1 = [4]"
    "streamRef recording2 = Some 3" "sourceRef recording2 = Some 4"
    "liveStreams recording2 = [3]" "closes recording2 = 1" "connectedSources recording2 = [4]"
    "audioContextOf (render recording2) = Some 2"
    "closedContexts (stopRecording (render recording2) recording2) = [2]"
    by (simp_all add: recording1_def recording2_def render_def stopRecording_nf)
  show ?thesis
    using stop_idempotent [OF h, where r = "render recording2" and ?r2.0 = firstRender
        and ?s0.0 = idle1 and ?t0.0 = idle2 and ?r0.0 = pageRender] h i
    by (simp add: k)
qed

text \<open>
  Stopping the idle second version is not without effect: the status line becomes
  \<^verbatim>\<open>Recording stopped\<close> and the background is painted. The page does so with every click on
  Start, whose first step is this \<^verbatim>\<open>stopRecording\<close>.
\<close>

theorem idle_stop_counterexample:
  "run2 [StreamForDevices2 (Inr ()), DevicesEnumerated2 (Inr [''mic-1''])] (init2 pageCanvas) = idle2
   \<and> render idle2 = pageRender
   \<and> isRecording idle2 = False \<and> streamRef idle2 = None \<and> sourceRef idle2 = None
   \<and> frames idle2 = [] \<and> liveStreams idle2 = []
   \<and> debugInfo idle2 = DevicesLoaded 1
   \<and> map_option painted (canvasRef idle2) = Some []
   \<and> debugInfo (stopRecording pageRender idle2) = RecordingStopped
   \<and> map_option painted (canvasRef (stopRecording pageRender idle2))
       = Some [FillStyle (Css ''rgb(20, 20, 20)''), FillRect 0 0 800 400]
   \<and> stopRecording pageRender idle2 \<noteq> idle2
   \<and> step2 ClickButton2 idle2
       = (stopRecording pageRender idle2)\<lparr>nextId := 3, pendingRecordings := [(pageRender, 2)]\<rparr>"
proof -
  have a: "debugInfo (stopRecording pageRender idle2) = RecordingStopped"
    by (simp add: stopRecording_fields)
  have b: "debugInfo idle2 = DevicesLoaded 1" by (simp add: idle2_def)
  have c: "stopRecording pageRender idle2 \<noteq> idle2"
  proof
    assume "stopRecording pageRender idle2 = idle2"
    then have "debugInfo (stopRecording pageRender idle2) = debugInfo idle2" by simp
    then show False using a b by simp
  qed
  have d: "map_option painted (canvasRef (stopRecording pageRender idle2))
       = Some [FillStyle (Css ''rgb(20, 20, 20)''), FillRect 0 0 800 400]"
    by (simp add: stop_idle2) (simp add: background2_def pageCanvas_def)
  have e: "step2 ClickButton2 idle2
       = (stopRecording pageRender idle2)\<lparr>nextId := 3, pendingRecordings := [(pageRender, 2)]\<rparr>"
    unfolding step2_click_idle2 stop_idle2 by simp
  have f: "isRecording idle2 = False" "streamRef idle2 = None" "sourceRef idle2 = None"
    "frames idle2 = []" "liveStreams idle2 = []" "map_option painted (canvasRef idle2) = Some []"
    by (simp_all add: idle2_def pageCanvas_def)
  from idle2_reached render_idle2 a b c d e f show ?thesis by blast
qed

subsection \<open>One session at a time\<close>

text \<open>
  Claim C5, where the code breaks it. On the page of either version two clicks on the
  button before the first \<^verbatim>\<open>getUserMedia\<close> is granted start twice: the recording flag, and
  with it the button, changes only after the \<^verbatim>\<open>await\<close>, and the \<^verbatim>\<open>stopRecording\<close> with which the
  second version begins a start runs before the \<^verbatim>\<open>await\<close>, when there is nothing to stop yet.
  Once both requests are granted two streams have live tracks and two source nodes are
  connected, while the refs hold the later pair and the streams opened are those closed
  plus two (plus three in the first version, whose mount effect never stops the stream it
  was granted). A click on the button then stops the pair the refs hold; the earlier
  stream stays live and its source connected while the component is idle, and in the
  first version the frame request of the earlier start stays pending. The session is
  given as stream ref, source ref, recording flag, live streams, streams opened, streams
  closed, connected sources.
\<close>

theorem two_starts_two_streams:
  "session (run2 twoStarts2 (init2 pageCanvas)) = (Some 6, Some 7, True, [4, 6], 3, 1, [5, 7])
   \<and> session (run2 (twoStarts2 @ [ClickButton2]) (init2 pageCanvas))
       = (None, None, False, [4], 3, 2, [5])
   \<and> session (run1 [StreamForDevices (Inr ()), DevicesEnumerated (Inr [''mic-1''])] (init1 pageCanvas))
       = (None, None, False, [1], 1, 0, [])
   \<and> session (run1 twoStarts1 (init1 pageCanvas)) = (Some 6, Some 7, True, [1, 3, 6], 3, 0, [4, 7])
   \<and> map fst (frames (run1 twoStarts1 (init1 pageCanvas))) = [5, 8]
   \<and> session (run1 (twoStarts1 @ [ClickButton]) (init1 pageCanvas))
       = (None, None, False, [1, 3], 3, 1, [4])
   \<and> map fst (frames (run1 (twoStarts1 @ [ClickButton]) (init1 pageCanvas))) = [5]"
proof -
  have a: "session overlapped2 = (Some 6, Some 7, True, [4, 6], 3, 1, [5, 7])"
    by (simp add: session_def overlapped2_def recording2_def)
  have b: "session (step2 ClickButton2 overlapped2) = (None, None, False, [4], 3, 2, [5])"
    unfolding overlapped2_stopped by (simp add: session_def overlapped2_def recording2_def)
  have c: "session idle1 = (None, None, False, [1], 1, 0, [])"
    by (simp add: session_def idle1_def)
  have d: "session overlapped1 = (Some 6, Some 7, True, [1, 3, 6], 3, 0, [4, 7])"
    "map fst (frames overlapped1) = [5, 8]"
    by (simp_all add: session_def overlapped1_def recording1_def)
  have e: "session (step1 ClickButton overlapped1) = (None, None, False, [1, 3], 3, 1, [4])"
    "map fst (frames (step1 ClickButton overlapped1)) = [5]"
    unfolding overlapped1_stopped by (simp_all add: session_def overlapped1_def recording1_def)
  show ?thesis
    unfolding run1_snoc run2_snoc overlapped1_reached overlapped2_reached idle1_reached
    using a b c d e by simp
qed

subsection \<open>Frames and the style\<close>

text \<open>
  Claim C4, where the code breaks it. In the second version no frame ever reads the
  analyser or draws: the frame tests the \<^verbatim>\<open>isRecording\<close> of the render that started the loop,
  the button starts only from a render in which it is false, and so the first frame
  returns before it reads, draws or asks for a next frame. Whatever happens to the
  component, no frame request is pending and nothing was read. After a click on the
  button and a granted stream the component records, the canvas is blank, and a change
  of style has no frame to reach. (The first version does what the claim says: see
  \<open>first_version_follows_style\<close>.)
\<close>

theorem frame_loop_never_runs:
  "frames (run2 evs (init2 c)) = []
   \<and> reads (run2 evs (init2 c)) = []
   \<and> run2 [StreamForDevices2 (Inr ()), DevicesEnumerated2 (Inr [''mic-1'']), ClickButton2,
            StreamSettled2 0 (Inr ()) silence] (init2 pageCanvas) = recording2
   \<and> isRecording recording2 = True
   \<and> reads recording2 = []
   \<and> frames recording2 = []
   \<and> map_option painted (canvasRef recording2) = Some []
   \<and> console recording2 = [''Recording stopped, cleaning up animation frame'']
   \<and> reads (run2 [AnimationFrame2 k a, SetVisualizationType2 Bar2, AnimationFrame2 k a] recording2) = []"
proof -
  have "stale2 (run2 evs (init2 c))" by (rule stale2_run2)
  then have a: "frames (run2 evs (init2 c)) = []" "reads (run2 evs (init2 c)) = []"
    by (simp_all add: stale2_def)
  have b: "isRecording recording2 = True" "reads recording2 = []" "frames recording2 = []"
    "map_option painted (canvasRef recording2) = Some []"
    "console recording2 = [''Recording stopped, cleaning up animation frame'']"
    by (simp_all add: recording2_def pageCanvas_def)
  have "stale2 recording2" by (simp add: stale2_def recording2_def)
  then have "stale2 (run2 [AnimationFrame2 k a, SetVisualizationType2 Bar2, AnimationFrame2 k a] recording2)"
    unfolding run2_def by (rule stale2_fold)
  then have d: "reads (run2 [AnimationFrame2 k a, SetVisualizationType2 Bar2, AnimationFrame2 k a] recording2) = []"
    by (simp add: stale2_def)
  from a b d recording2_reached show ?thesis by blast
qed

subsection \<open>Frames and the geometry\<close>

text \<open>
  Claim C7, as the code has it. The geometry is read once, when the loop is started: the
  first version reads the width and height of the canvas in \<^verbatim>\<open>visualize\<close>, the second version
  its bounding rectangle in \<^verbatim>\<open>draw\<close>, and the frame closure keeps it. Every frame paints the
  transform for the geometry of its closure, whatever size the canvas has by then, and
  asks for the next frame with the same closure and so the same geometry. In the first
  version the background fill uses that geometry too; in the second version the
  background fill alone uses the size of the canvas as it is now.
\<close>

theorem geometry_read_once:
  "(canvasRef s = Some c \<and> context2d c \<and> analyserRef s = Some an \<longrightarrow>
      (\<exists>d. frames (fst (visualize a s)) =
             frames s @ [(nextId s, \<lparr>capDataArray = d, capBufferLength = frequencyBinCount an,
                                      capGeometry = \<lparr>width = width c, height = height c\<rparr>,
                                      capRender = ()\<rparr>)]))
   \<and> (canvasRef s = Some c \<longrightarrow>
        canvasRef (fst (draw e a s)) =
          Some (c\<lparr>painted := painted c
                    @ background1 (width (capGeometry e)) (height (capGeometry e))
                    @ fst (dispatch1 (visualizationTypeRef s) (byteData1 (visualizationTypeRef s) e a)
                             (capBufferLength e) (width (capGeometry e)) (height (capGeometry e)))\<rparr>))
   \<and> frames (fst (draw e a s))
        = frames s @ [(nextId s, e\<lparr>capDataArray := byteData1 (visualizationTypeRef s) e a\<rparr>)]
   \<and> capGeometry (e\<lparr>capDataArray := byteData1 (visualizationTypeRef s) e a\<rparr>) = capGeometry e
   \<and> (canvasRef t = Some c2 \<and> context2d c2 \<and> isRecordingOf r
        \<and> snd (dispatch2 (visualizationTypeOf r)
                 (getByteData (replicate (frequencyBinCount an) 0) (frequencyData a))
                 (boundingClientRect c2)) = None \<longrightarrow>
        frames (draw2 r an a t) =
          frames t @ [(nextId t,
            \<lparr>capDataArray = getByteData (replicate (frequencyBinCount an) 0) (frequencyData a),
             capBufferLength = frequencyBinCount an,
             capGeometry = boundingClientRect c2, capRender = r\<rparr>)])
   \<and> (isRecordingOf (capRender e2)
        \<and> snd (dispatch2 (visualizationTypeOf (capRender e2))
                 (getByteData (capDataArray e2) (frequencyData a)) (capGeometry e2)) = None \<longrightarrow>
        frames (drawFrame e2 a t)
          = frames t @ [(nextId t, e2\<lparr>capDataArray := getByteData (capDataArray e2) (frequencyData a)\<rparr>)]
        \<and> (canvasRef t = Some c2 \<longrightarrow>
             canvasRef (drawFrame e2 a t)
               = Some (c2\<lparr>painted := painted c2 @ background2 c2
                           @ fst (dispatch2 (visualizationTypeOf (capRender e2))
                                    (getByteData (capDataArray e2) (frequencyData a))
                                    (capGeometry e2))\<rparr>)))"
proof -
  have v: "canvasRef s = Some c \<and> context2d c \<and> analyserRef s = Some an \<longrightarrow>
      (\<exists>d. frames (fst (visualize a s)) =
             frames s @ [(nextId s, \<lparr>capDataArray = d, capBufferLength = frequencyBinCount an,
                                      capGeometry = \<lparr>width = width c, height = height c\<rparr>,
                                      capRender = ()\<rparr>)])"
    using visualize_frames[of s c an a] by blast
  have g: "capGeometry (e\<lparr>capDataArray := byteData1 (visualizationTypeRef s) e a\<rparr>) = capGeometry e"
    by simp
  from v g draw_canvas[of s c e a] draw_frames[of e a s] draw2_frames[of t c2 r an a]
    drawFrame_frames[of e2 a t] drawFrame_canvas[of e2 a t c2]
  show ?thesis by blast
qed

theorem geometry_read_once_witness:
  "canvasRef recording1 = Some flatLineCanvas \<and> context2d flatLineCanvas
   \<and> analyserRef recording1 = Some \<lparr>fftSize = 2048, minDecibels = - 100, maxDecibels = - 30,
                                       smoothingTimeConstant = 0.8\<rparr>
   \<and> canvasRef looping2 = Some pageCanvas \<and> context2d pageCanvas
   \<and> isRecordingOf (capRender loop2)
   \<and> snd (dispatch2 (visualizationTypeOf (capRender loop2))
            (getByteData (capDataArray loop2) (frequencyData silence)) (capGeometry loop2)) = None
   \<and> frames (fst (draw loop1 silence recording1)) = [(5, loop1), (6, loop1)]
   \<and> frames (drawFrame loop2 silence looping2) = [(5, loop2), (6, loop2)]"
proof -
  have h: "canvasRef recording1 = Some flatLineCanvas" "context2d flatLineCanvas"
    "analyserRef recording1 = Some \<lparr>fftSize = 2048, minDecibels = - 100, maxDecibels = - 30,
                                       smoothingTimeConstant = 0.8\<rparr>"
    "canvasRef looping2 = Some pageCanvas" "context2d pageCanvas"
    "isRecordingOf (capRender loop2)"
    by (simp_all add: recording1_def flatLineCanvas_def pageCanvas_def looping2_def recording2_def loop2_def)
  have d: "snd (dispatch2 (visualizationTypeOf (capRender loop2))
            (getByteData (capDataArray loop2) (frequencyData silence)) (capGeometry loop2)) = None"
    "snd (dispatch2 (visualizationTypeOf (capRender loop2))
            (getByteData (replicate (frequencyBinCount \<lparr>fftSize = 2048, minDecibels = - 100,
                 maxDecibels = - 30, smoothingTimeConstant = 0.8\<rparr>) 0) (frequencyData silence))
            (boundingClientRect pageCanvas)) = None"
    by (simp_all add: dispatch2_def loop2_def)
  have k: "frames recording1 = [(5, loop1)]" "nextId recording1 = 6"
    "visualizationTypeRef recording1 = Line"
    "frames looping2 = [(5, loop2)]" "nextId looping2 = 6"
    by (simp_all add: recording1_def looping2_def)
  have e1: "loop1\<lparr>capDataArray := byteData1 Line loop1 silence\<rparr> = loop1"
    by (simp add: loop1_def byteData1_def getByteData_def silence_def)
  have e2: "loop2\<lparr>capDataArray := getByteData (capDataArray loop2) (frequencyData silence)\<rparr> = loop2"
    by (simp add: loop2_def getByteData_def silence_def)
  show ?thesis
    using geometry_read_once [where s = recording1 and c = flatLineCanvas and e = loop1
        and a = silence and t = looping2 and ?c2.0 = pageCanvas and r = "capRender loop2"
        and ?e2.0 = loop2
        and an = "\<lparr>fftSize = 2048, minDecibels = - 100, maxDecibels = - 30,
                    smoothingTimeConstant = 0.8\<rparr>"]
    by (simp add: h d k e1 e2)
qed

text \<open>
  A change of geometry between two frames does not reach the later frame. The first
  version finds its microphone, is started by a click and records on the 800 by 400
  canvas; the canvas becomes 400 by 200; the frame that runs next fills and draws for 800
  by 400.
\<close>

theorem resized_canvas_counterexample:
  "map_option width
     (canvasRef (run1 [StreamForDevices (Inr ()), DevicesEnumerated (Inr [''mic-1'']), ClickButton,
                       StreamSettled (Inr ()) silence,
                       ResizeCanvas 400 200, AnimationFrame 5 silence] (init1 pageCanvas)))
     = Some 400
   \<and> map_option height
     (canvasRef (run1 [StreamForDevices (Inr ()), DevicesEnumerated (Inr [''mic-1'']), ClickButton,
                       StreamSettled (Inr ()) silence,
                       ResizeCanvas 400 200, AnimationFrame 5 silence] (init1 pageCanvas)))
     = Some 200
   \<and> map_option painted
     (canvasRef (run1 [StreamForDevices (Inr ()), DevicesEnumerated (Inr [''mic-1'']), ClickButton,
                       StreamSettled (Inr ()) silence,
                       ResizeCanvas 400 200, AnimationFrame 5 silence] (init1 pageCanvas)))
     = Some (background1 800 400 @ drawLine (replicate 1024 128) 1024 800 400)"
proof -
  let ?s = "step1 (ResizeCanvas 400 200) recording1"
  have "run1 ([StreamForDevices (Inr ()), DevicesEnumerated (Inr [''mic-1'']), ClickButton,
                 StreamSettled (Inr ()) silence] @ [ResizeCanvas 400 200, AnimationFrame 5 silence])
               (init1 pageCanvas)
         = step1 (AnimationFrame 5 silence) ?s"
    unfolding run1_def fold_append comp_apply
    using recording1_reached by (simp add: run1_def)
  then have r: "run1 [StreamForDevices (Inr ()), DevicesEnumerated (Inr [''mic-1'']), ClickButton,
                 StreamSettled (Inr ()) silence,
                 ResizeCanvas 400 200, AnimationFrame 5 silence] (init1 pageCanvas)
         = step1 (AnimationFrame 5 silence) ?s"
    by simp
  have c: "canvasRef ?s = Some (flatLineCanvas\<lparr>width := 400, height := 200, painted := []\<rparr>)"
    by (simp add: step1_def recording1_def setDimension_def ToUint32_def)
  have m: "map_of (frames ?s) 5 = Some loop1" "visualizationTypeRef ?s = Line"
    by (simp_all add: step1_def recording1_def)
  have c': "canvasRef (cancelAnimationFrame 5 ?s)
          = Some (flatLineCanvas\<lparr>width := 400, height := 200, painted := []\<rparr>)"
    "visualizationTypeRef (cancelAnimationFrame 5 ?s) = Line"
    using c m(2) by (simp_all add: cancelAnimationFrame_def)
  have b: "byteData1 Line loop1 silence = replicate 1024 128"
    by (simp add: loop1_def byteData1_def getByteData_def silence_def)
  have g: "width (capGeometry loop1) = 800" "height (capGeometry loop1) = 400"
    "capBufferLength loop1 = 1024"
    by (simp_all add: loop1_def)
  have "canvasRef (step1 (AnimationFrame 5 silence) ?s)
      = Some (flatLineCanvas\<lparr>width := 400, height := 200,
                painted := background1 800 400 @ drawLine (replicate 1024 128) 1024 800 400\<rparr>)"
    unfolding step1_frame[OF m(1)]
    by (simp add: draw_canvas[OF c'(1)] c'(2) b g dispatch1_def)
  then show ?thesis unfolding r by simp
qed

subsection \<open>A rejected start\<close>




end
